theory Spec2Isabelle
  imports Complex_Main "HOL-Library.AList" "HOL-Library.Multiset"
begin

section \<open>Python values used by the three scripts\<close>

text \<open>
  The scripts \<^verbatim>\<open>eibi2kiwi.py\<close>, \<^verbatim>\<open>eibi2kiwi_online.py\<close> and \<^verbatim>\<open>eibi2kiwi_json.py\<close> are
  sequential Python programs over strings and lists of strings. A Python \<^verbatim>\<open>str\<close> is
  modelled as a \<^typ>\<open>string\<close>; the characters that decide a branch of the scripts are all
  ASCII. Every exception the scripts can raise is a value of \<open>py_error\<close>, and a
  computation that may raise returns \<open>py_error + 'a\<close> with \<open>Inl\<close> for the exception. None
  of the scripts catches an exception of the row loop, so an \<open>Inl\<close> ends the run.
\<close>

datatype py_error = ValueError | KeyError | IndexError | StopIteration | CsvError

text \<open>
  Statements in sequence: the first exception ends the computation, otherwise the value
  goes on to the rest.
\<close>

definition bind_err :: "py_error + 'a \<Rightarrow> ('a \<Rightarrow> py_error + 'b) \<Rightarrow> py_error + 'b" where
  "bind_err m f = (case m of Inl e \<Rightarrow> Inl e | Inr x \<Rightarrow> f x)"

text \<open>\<^verbatim>\<open>xs[i]\<close>: a negative index counts from the end, out of range raises IndexError.\<close>

definition py_getitem :: "'a list \<Rightarrow> int \<Rightarrow> py_error + 'a" where
  "py_getitem xs i =
     (if 0 \<le> i \<and> i < int (length xs) then Inr (xs ! nat i)
      else if i < 0 \<and> - int (length xs) \<le> i then Inr (xs ! nat (int (length xs) + i))
      else Inl IndexError)"

text \<open>\<^verbatim>\<open>xs.index(x)\<close>: the first position of \<open>x\<close>, ValueError when it is absent.\<close>

fun py_list_index :: "'a list \<Rightarrow> 'a \<Rightarrow> py_error + nat" where
  "py_list_index [] x = Inl ValueError"
| "py_list_index (y # ys) x =
     (if y = x then Inr 0
      else (case py_list_index ys x of Inl e \<Rightarrow> Inl e | Inr i \<Rightarrow> Inr (Suc i)))"

text \<open>\<^verbatim>\<open>s.split(sep)\<close> for a one-character separator: never an empty list.\<close>

fun py_split :: "char \<Rightarrow> string \<Rightarrow> string list" where
  "py_split sep [] = [[]]"
| "py_split sep (c # cs) =
     (if c = sep then [] # py_split sep cs
      else (c # hd (py_split sep cs)) # tl (py_split sep cs))"

text \<open>\<^verbatim>\<open>sep.join(xs)\<close>.\<close>

fun py_join :: "string \<Rightarrow> string list \<Rightarrow> string" where
  "py_join sep [] = []"
| "py_join sep [x] = x"
| "py_join sep (x # y # ys) = x @ sep @ py_join sep (y # ys)"

text \<open>\<^verbatim>\<open>s.isdigit()\<close> on ASCII text: not empty and every character a decimal digit.\<close>

definition is_digit :: "char \<Rightarrow> bool" where
  "is_digit c = (c \<in> set ''0123456789'')"

definition py_isdigit :: "string \<Rightarrow> bool" where
  "py_isdigit s = (s \<noteq> [] \<and> list_all is_digit s)"

text \<open>\<^verbatim>\<open>int(c)\<close> for a one-character string.\<close>

definition py_int_char :: "char \<Rightarrow> py_error + int" where
  "py_int_char c = (if is_digit c then Inr (int (of_char c) - 48) else Inl ValueError)"

text \<open>\<^verbatim>\<open>s.startswith(p)\<close>.\<close>

definition py_startswith :: "string \<Rightarrow> string \<Rightarrow> bool" where
  "py_startswith p s = (take (length p) s = p)"

text \<open>\<^verbatim>\<open>d[k]\<close> on a dict: KeyError when the key is absent.\<close>

definition py_dict_get :: "('k \<rightharpoonup> 'v) \<Rightarrow> 'k \<Rightarrow> py_error + 'v" where
  "py_dict_get d k = (case d k of None \<Rightarrow> Inl KeyError | Some v \<Rightarrow> Inr v)"

text \<open>
  \<^verbatim>\<open>zip(*xss)\<close>: the columns of \<open>xss\<close>, as many as the shortest element has; no column
  at all for an empty \<open>xss\<close>.
\<close>

function py_zip_star :: "'a list list \<Rightarrow> 'a list list" where
  "py_zip_star xss =
     (if xss = [] \<or> list_ex (\<lambda>xs. xs = []) xss then []
      else map hd xss # py_zip_star (map tl xss))"
  by pat_completeness auto
termination
proof (relation "measure (\<lambda>xss. length (hd xss))")
  show "wf (measure (\<lambda>xss::'a list list. length (hd xss)))" by simp
next
  fix xss :: "'a list list"
  assume a: "\<not> (xss = [] \<or> list_ex (\<lambda>xs. xs = []) xss)"
  then obtain x xs where xss: "xss = x # xs" by (cases xss) auto
  with a have "x \<noteq> []" by simp
  then show "(map tl xss, xss) \<in> measure (\<lambda>xss. length (hd xss))"
    by (simp add: xss)
qed

declare py_zip_star.simps [simp del]

section \<open>The weekday functions (both CSV scripts define them alike)\<close>

text \<open>The dict \<^verbatim>\<open>days\<close>: one seven-character bit string per weekday abbreviation.\<close>

definition days :: "string \<rightharpoonup> string" where
  "days = map_of
     [(''Mo'', ''1000000''), (''Tu'', ''0100000''), (''We'', ''0010000''),
      (''Th'', ''0001000''), (''Fr'', ''0000100''), (''Sa'', ''0000010''),
      (''Su'', ''0000001'')]"

text \<open>The list \<^verbatim>\<open>weekdays\<close> of \<^verbatim>\<open>expand_weekday_range\<close>, also \<^verbatim>\<open>daylist\<close>.\<close>

definition weekdays :: "string list" where
  "weekdays = [''Mo'', ''Tu'', ''We'', ''Th'', ''Fr'', ''Sa'', ''Su'']"

text \<open>
  \<^verbatim>\<open>start, end = weekday_range.split("-")\<close> raises ValueError unless the split has two
  parts, and so does \<^verbatim>\<open>weekdays.index\<close> on a string that is no abbreviation. The slices
  never raise.
\<close>

definition expand_weekday_range :: "string \<Rightarrow> py_error + string" where
  "expand_weekday_range weekday_range =
     (case py_split CHR ''-'' weekday_range of
        [start, end] \<Rightarrow>
          (case py_list_index weekdays start of
             Inl e \<Rightarrow> Inl e
           | Inr start_index \<Rightarrow>
               (case py_list_index weekdays end of
                  Inl e \<Rightarrow> Inl e
                | Inr end_index \<Rightarrow>
                    Inr (py_join '',''
                      (if start_index \<le> end_index
                       then drop start_index (take (end_index + 1) weekdays)
                       else drop start_index weekdays @ take (end_index + 1) weekdays))))
      | _ \<Rightarrow> Inl ValueError)"

text \<open>The loop of \<^verbatim>\<open>weekdays_to_binstrings\<close>: the first missing key raises KeyError.\<close>

fun lookup_all :: "(string \<rightharpoonup> string) \<Rightarrow> string list \<Rightarrow> py_error + string list" where
  "lookup_all days_dict [] = Inr []"
| "lookup_all days_dict (day # rest) =
     (case py_dict_get days_dict day of
        Inl e \<Rightarrow> Inl e
      | Inr b \<Rightarrow> (case lookup_all days_dict rest of Inl e \<Rightarrow> Inl e | Inr bs \<Rightarrow> Inr (b # bs)))"

definition weekdays_to_binstrings :: "string \<Rightarrow> (string \<rightharpoonup> string) \<Rightarrow> py_error + string list" where
  "weekdays_to_binstrings wdays days_dict = lookup_all days_dict (py_split CHR '','' wdays)"

text \<open>
  The loop of \<^verbatim>\<open>weekdaynumbers_to_binstrings\<close>: \<^verbatim>\<open>daylist[int(number) - 1]\<close> for each
  character in turn.
\<close>

fun numbers_to_weekdays :: "string \<Rightarrow> py_error + string list" where
  "numbers_to_weekdays [] = Inr []"
| "numbers_to_weekdays (number # rest) =
     (case py_int_char number of
        Inl e \<Rightarrow> Inl e
      | Inr n \<Rightarrow>
          (case py_getitem weekdays (n - 1) of
             Inl e \<Rightarrow> Inl e
           | Inr d \<Rightarrow>
               (case numbers_to_weekdays rest of
                  Inl e \<Rightarrow> Inl e
                | Inr ds \<Rightarrow> Inr (d # ds))))"

definition weekdaynumbers_to_binstrings ::
  "string \<Rightarrow> (string \<rightharpoonup> string) \<Rightarrow> py_error + string list" where
  "weekdaynumbers_to_binstrings numbers_string days_dict =
     (case numbers_to_weekdays numbers_string of
        Inl e \<Rightarrow> Inl e
      | Inr weekdays_list \<Rightarrow> weekdays_to_binstrings (py_join '','' weekdays_list) days_dict)"

definition create_weekly_binstring :: "string list \<Rightarrow> string" where
  "create_weekly_binstring bin_strings =
     map (\<lambda>bits. if list_ex (\<lambda>bit. bit = CHR ''1'') bits then CHR ''1'' else CHR ''0'')
       (py_zip_star bin_strings)"

text \<open>
  \<^verbatim>\<open>binstring_to_dowstring\<close>: \<^verbatim>\<open>days[i]\<close> is read only where the bit is 1, so a bit
  string longer than seven raises IndexError only if it has a 1 beyond the seventh place.
\<close>

definition day_letters :: "string" where
  "day_letters = ''MTWTFSS''"

fun dowstring_from :: "nat \<Rightarrow> string \<Rightarrow> py_error + string" where
  "dowstring_from i [] = Inr []"
| "dowstring_from i (b # bs) =
     (case (if b = CHR ''1'' then py_getitem day_letters (int i) else Inr CHR ''_'') of
        Inl e \<Rightarrow> Inl e
      | Inr c \<Rightarrow> (case dowstring_from (Suc i) bs of Inl e \<Rightarrow> Inl e | Inr cs \<Rightarrow> Inr (c # cs)))"

definition binstring_to_dowstring :: "string \<Rightarrow> py_error + string" where
  "binstring_to_dowstring bin_string = dowstring_from 0 bin_string"

section \<open>Floating point numbers\<close>

text \<open>
  The scripts read the frequency with \<^verbatim>\<open>float\<close>, print it with \<^verbatim>\<open>str\<close>, round it with
  \<^verbatim>\<open>round(x, 2)\<close> and compare it when they sort. No claim depends on how a double is
  rounded, so these operations are parameters of the model, over a type \<open>'f\<close> of floats:
  \<open>float_of_str\<close> is \<^verbatim>\<open>float(s)\<close> (\<open>None\<close> where Python raises ValueError),
  \<open>str_of_float\<close> is \<^verbatim>\<open>str(x)\<close> and \<open>round2\<close> is \<^verbatim>\<open>round(x, 2)\<close>.

  \<open>float_value\<close> gives the number a float compares as, in a linear order \<open>'k\<close>, and
  \<open>None\<close> for a NaN, which \<^verbatim>\<open>float\<close> reads from the text \<^verbatim>\<open>nan\<close>. Two floats may have the
  same value (\<^verbatim>\<open>-0.0\<close> and \<^verbatim>\<open>0.0\<close>). \<open>float_lt\<close> is Python's \<^verbatim>\<open><\<close> on these values: it
  is false as soon as one side is a NaN.

  \<open>sort_unordered\<close> is what \<^verbatim>\<open>list.sort\<close> makes of a list whose keys have a NaN among
  them and are not already in order (see \<open>sort_outrow\<close> below): it depends on the merge
  strategy of the interpreter and is left open.
\<close>

record ('f, 'k) py_float_ops =
  float_of_str :: "string \<Rightarrow> 'f option"
  str_of_float :: "'f \<Rightarrow> string"
  round2 :: "'f \<Rightarrow> 'f"
  float_value :: "'f \<Rightarrow> 'k option"
  sort_unordered :: "'k option list \<Rightarrow> string list list \<Rightarrow> string list list"

definition float_lt :: "('k::linorder) option \<Rightarrow> 'k option \<Rightarrow> bool" where
  "float_lt a b = (case a of None \<Rightarrow> False | Some x \<Rightarrow> (case b of None \<Rightarrow> False | Some y \<Rightarrow> x < y))"

definition py_float :: "('f, 'k) py_float_ops \<Rightarrow> string \<Rightarrow> py_error + 'f" where
  "py_float ops s = (case float_of_str ops s of None \<Rightarrow> Inl ValueError | Some x \<Rightarrow> Inr x)"

section \<open>The row loop of the CSV scripts\<close>

text \<open>\<^verbatim>\<open>s.strip()\<close>: the ASCII characters Python counts as white space go from both ends.\<close>

definition is_space :: "char \<Rightarrow> bool" where
  "is_space c =
     (c \<in> set [CHR 0x09, CHR 0x0A, CHR 0x0B, CHR 0x0C, CHR 0x0D,
                CHR 0x1C, CHR 0x1D, CHR 0x1E, CHR 0x1F, CHR 0x20])"

definition py_strip :: "string \<Rightarrow> string" where
  "py_strip s = rev (dropWhile is_space (rev (dropWhile is_space s)))"

text \<open>The f-string \<^verbatim>\<open>f'"{x}"'\<close>: the text between two double quotes.\<close>

definition dquote :: "char" where
  "dquote = CHR 0x22"

definition py_quoted :: "string \<Rightarrow> string" where
  "py_quoted x = dquote # x @ [dquote]"

text \<open>
  The day branch of the loop body: from \<^verbatim>\<open>day = row[2]\<close> to the last \<^verbatim>\<open>elif\<close>. The
  variable \<^verbatim>\<open>DOW\<close> is global; the function takes the value it has when the row starts
  and returns the value it has after the branch. When no condition holds, nothing
  is assigned. The online script asks in its third condition that the field does not end
  in a hyphen; \<open>online\<close> tells which script runs.
\<close>

definition day_branch :: "bool \<Rightarrow> string \<Rightarrow> string \<Rightarrow> py_error + string" where
  "day_branch online DOW day =
     (if py_isdigit day then
        (case weekdaynumbers_to_binstrings day days of
           Inl e \<Rightarrow> Inl e
         | Inr r \<Rightarrow> binstring_to_dowstring (create_weekly_binstring r))
      else if CHR '','' \<in> set day \<or> days day \<noteq> None \<or> day = ''SaSu''
              \<or> py_startswith ''1.'' day then
        (let day1 = (if day = ''SaSu'' then ''Sa,Su'' else day);
             day2 = (if py_startswith ''1.'' day1 then drop 2 day1 else day1)
         in case weekdays_to_binstrings day2 days of
              Inl e \<Rightarrow> Inl e
            | Inr r \<Rightarrow> binstring_to_dowstring (create_weekly_binstring r))
      else if CHR ''-'' \<in> set day \<and> (if online then last day \<noteq> CHR ''-'' else True) then
        (case expand_weekday_range day of
           Inl e \<Rightarrow> Inl e
         | Inr r0 \<Rightarrow>
             (case weekdays_to_binstrings r0 days of
                Inl e \<Rightarrow> Inl e
              | Inr r \<Rightarrow> binstring_to_dowstring (create_weekly_binstring r)))
      else Inr DOW)"

text \<open>\<^verbatim>\<open>if not DOW: DOW = "" else: DOW = f'"{DOW}"'\<close>\<close>

definition quote_dow :: "string \<Rightarrow> string" where
  "quote_dow DOW = (if DOW = [] then [] else py_quoted DOW)"

text \<open>\<^verbatim>\<open>begin, end = row[1].split("-")\<close> and the two replacements that follow.\<close>

definition split_times :: "string \<Rightarrow> py_error + string \<times> string" where
  "split_times t =
     (case py_split CHR ''-'' t of
        [begin, end] \<Rightarrow>
          Inr (if begin = ''0000'' then ''0001'' else begin,
               if end = ''2400'' then ''2359'' else end)
      | _ \<Rightarrow> Inl ValueError)"

text \<open>The classification and the two optional parts of the notes.\<close>

definition type_of_lang :: "string \<Rightarrow> string" where
  "type_of_lang lang = (if py_startswith ''-'' lang \<or> lang = [] then ''T4'' else ''T3'')"

definition lang_text :: "string \<Rightarrow> string" where
  "lang_text lang = (if lang = [] then [] else ''Lang: '' @ lang)"

definition target_text :: "string \<Rightarrow> string" where
  "target_text target = (if target = [] then [] else ''Target: '' @ target @ ''.'')"

text \<open>The twelve fields appended to \<^verbatim>\<open>outrow\<close>.\<close>

definition out_record ::
  "string \<Rightarrow> string \<Rightarrow> string \<Rightarrow> string \<Rightarrow> string \<Rightarrow> string \<Rightarrow> string \<Rightarrow> string list" where
  "out_record khz ident notes type DOW begin end =
     [khz, py_quoted ''QAM'', py_quoted ident, py_quoted (py_strip notes), [],
      py_quoted type, [], [], [], DOW, begin, end]"

text \<open>
  One turn of the loop of \<^verbatim>\<open>eibi2kiwi.py\<close>, in the order of the source: the row
  \<open>row\<close> with \<^verbatim>\<open>DOW\<close> as the turn before left it gives the record appended to
  \<^verbatim>\<open>outrow\<close> and the value of \<^verbatim>\<open>DOW\<close> after the last statement, \<^verbatim>\<open>DOW = ""\<close>.
\<close>

definition process_row ::
  "('f, 'k) py_float_ops \<Rightarrow> string \<Rightarrow> string list \<Rightarrow> py_error + string list \<times> string" where
  "process_row ops DOW row =
     bind_err (py_getitem row 0) (\<lambda>r0.
     bind_err (py_float ops r0) (\<lambda>khz.
     bind_err (py_getitem row 1) (\<lambda>r1.
     bind_err (split_times r1) (\<lambda>(begin, end).
     bind_err (py_getitem row 2) (\<lambda>day.
     bind_err (day_branch False DOW day) (\<lambda>DOW1.
     bind_err (py_getitem row 3) (\<lambda>itu.
     bind_err (py_getitem row 4) (\<lambda>ident.
     bind_err (py_getitem row 5) (\<lambda>r5.
     bind_err (py_getitem row 6) (\<lambda>r6.
     bind_err (py_getitem row 7) (\<lambda>rem.
       (let lang = py_strip r5; target = target_text (py_strip r6);
            notes = (if rem = [] then itu @ ''. '' @ target @ '' '' @ lang_text lang
                     else itu @ '' via '' @ rem @ ''. '' @ target @ '' '' @ lang_text lang)
        in Inr (out_record (str_of_float ops khz) ident notes (type_of_lang lang)
                  (quote_dow DOW1) begin end, [])))))))))))))"

text \<open>
  The relay field of the online script: with a slash in the field, the field is split
  at its hyphens, the country code is the first part without its first character, and the
  site is the second part when there is one (\<^verbatim>\<open>stn[1]\<close> raises IndexError otherwise,
  which the \<^verbatim>\<open>try\<close> swallows). The result is \<^verbatim>\<open>(itu, txsite)\<close>.
\<close>

definition relay_site :: "string \<Rightarrow> string \<Rightarrow> string \<times> string" where
  "relay_site itu r7 =
     (if CHR ''/'' \<in> set r7 then
        (let stn = py_split CHR ''-'' r7
         in (drop 1 (hd stn), case py_getitem stn 1 of Inl e \<Rightarrow> [] | Inr s \<Rightarrow> s))
      else (itu, r7))"

text \<open>\<^verbatim>\<open>location_dict.get(itu, {}).get(txsite)\<close>\<close>

definition location_lookup ::
  "(string \<rightharpoonup> (string \<rightharpoonup> string)) \<Rightarrow> string \<Rightarrow> string \<Rightarrow> string option" where
  "location_lookup location_dict itu txsite =
     (case location_dict itu of None \<Rightarrow> None | Some sites \<Rightarrow> sites txsite)"

definition online_notes ::
  "(string \<rightharpoonup> (string \<rightharpoonup> string)) \<Rightarrow> string \<Rightarrow> string \<Rightarrow> string \<Rightarrow> string \<Rightarrow> string" where
  "online_notes location_dict itu0 r7 target lang =
     (case relay_site itu0 r7 of (itu, txsite) \<Rightarrow>
        (case location_lookup location_dict itu txsite of
           Some long_name \<Rightarrow> itu @ '' '' @ py_strip long_name @ ''. '' @ target @ '' '' @ lang
         | None \<Rightarrow> itu @ ''. '' @ target @ '' '' @ lang))"

text \<open>One turn of the loop of \<^verbatim>\<open>eibi2kiwi_online.py\<close>.\<close>

definition process_row_online ::
  "('f, 'k) py_float_ops \<Rightarrow> (string \<rightharpoonup> (string \<rightharpoonup> string)) \<Rightarrow> string \<Rightarrow> string list
     \<Rightarrow> py_error + string list \<times> string" where
  "process_row_online ops location_dict DOW row =
     bind_err (py_getitem row 0) (\<lambda>r0.
     bind_err (py_float ops r0) (\<lambda>khz.
     bind_err (py_getitem row 1) (\<lambda>r1.
     bind_err (split_times r1) (\<lambda>(begin, end).
     bind_err (py_getitem row 2) (\<lambda>day.
     bind_err (day_branch True DOW day) (\<lambda>DOW1.
     bind_err (py_getitem row 3) (\<lambda>itu.
     bind_err (py_getitem row 4) (\<lambda>ident.
     bind_err (py_getitem row 5) (\<lambda>r5.
     bind_err (py_getitem row 6) (\<lambda>r6.
     bind_err (py_getitem row 7) (\<lambda>r7.
       (let lang = py_strip r5; target = target_text (py_strip r6);
            notes = online_notes location_dict itu r7 target (lang_text lang)
        in Inr (out_record (str_of_float ops khz) ident notes (type_of_lang lang)
                  (quote_dow DOW1) begin end, [])))))))))))))"

text \<open>
  The \<^verbatim>\<open>for row in reader\<close> loop: \<open>step\<close> is the loop body of one of the two scripts.
  The first exception ends the run; otherwise the result is \<^verbatim>\<open>outrow\<close> in the order of
  the rows, and the last value of \<^verbatim>\<open>DOW\<close>.
\<close>

fun row_loop ::
  "(string \<Rightarrow> string list \<Rightarrow> py_error + string list \<times> string) \<Rightarrow> string \<Rightarrow> string list list
     \<Rightarrow> py_error + string list list \<times> string" where
  "row_loop step DOW [] = Inr ([], DOW)"
| "row_loop step DOW (row # rows) =
     (case step DOW row of
        Inl e \<Rightarrow> Inl e
      | Inr (record, DOW1) \<Rightarrow>
          (case row_loop step DOW1 rows of
             Inl e \<Rightarrow> Inl e
           | Inr (outrow, DOW2) \<Rightarrow> Inr (record # outrow, DOW2)))"

text \<open>
  \<^verbatim>\<open>outrow.sort(key=lambda x: float(x[0]))\<close>: Python computes the key of every element
  first (the first ValueError or IndexError ends the run), then sorts by the keys, which
  it compares with \<^verbatim>\<open><\<close> only.
  \<^item> When no key is a NaN, \<^verbatim>\<open><\<close> orders the keys by their values and the result is the
    stable sort; \<^const>\<open>sort_key\<close> is the stable insertion sort of the HOL library.
  \<^item> With a NaN among the keys, every comparison with it is false. A list in which no
    key is less than the key before it is then taken for one ascending run and left as
    it is (\<^verbatim>\<open>count_run\<close> in CPython's \<^verbatim>\<open>listobject.c\<close>).
  \<^item> For any other list with a NaN among the keys the result is \<open>sort_unordered\<close>.
\<close>

definition sort_key_of :: "('f, 'k) py_float_ops \<Rightarrow> string list \<Rightarrow> py_error + 'f" where
  "sort_key_of ops x =
     bind_err (py_getitem x 0) (py_float ops)"

fun first_error :: "(py_error + 'a) list \<Rightarrow> py_error option" where
  "first_error [] = None"
| "first_error (Inl e # rs) = Some e"
| "first_error (Inr v # rs) = first_error rs"

text \<open>The value of the key of a record; \<open>None\<close> when the key is a NaN.\<close>

definition key_value :: "('f, 'k) py_float_ops \<Rightarrow> string list \<Rightarrow> 'k option" where
  "key_value ops x =
     (case sort_key_of ops x of Inl e \<Rightarrow> None | Inr f \<Rightarrow> float_value ops f)"

fun no_descent :: "('k::linorder) option list \<Rightarrow> bool" where
  "no_descent (a # b # ks) = (\<not> float_lt b a \<and> no_descent (b # ks))"
| "no_descent ks = True"

definition sort_outrow ::
  "('f, 'k::linorder) py_float_ops \<Rightarrow> string list list \<Rightarrow> py_error + string list list" where
  "sort_outrow ops outrow =
     (case first_error (map (sort_key_of ops) outrow) of
        Some e \<Rightarrow> Inl e
      | None \<Rightarrow>
          Inr (if list_all (\<lambda>x. key_value ops x \<noteq> None) outrow
               then sort_key (\<lambda>x. the (key_value ops x)) outrow
               else if no_descent (map (key_value ops) outrow) then outrow
               else sort_unordered ops (map (key_value ops) outrow) outrow))"

text \<open>
  The CSV stage from the rows of \<^verbatim>\<open>csv.reader\<close> to the sorted \<^verbatim>\<open>outrow\<close>:
  \<^verbatim>\<open>next(reader)\<close> drops the header line and raises StopIteration on an empty file.
  The lines written are \<open>csv_lines\<close> of the result.
\<close>

definition csv_stage ::
  "('f, 'k::linorder) py_float_ops \<Rightarrow> string list list \<Rightarrow> py_error + string list list" where
  "csv_stage ops reader =
     (case reader of
        [] \<Rightarrow> Inl StopIteration
      | header # rows \<Rightarrow>
          (case row_loop (process_row ops) [] rows of
             Inl e \<Rightarrow> Inl e
           | Inr (outrow, DOW) \<Rightarrow> sort_outrow ops outrow))"

definition csv_stage_online ::
  "('f, 'k::linorder) py_float_ops \<Rightarrow> (string \<rightharpoonup> (string \<rightharpoonup> string)) \<Rightarrow> string list list
     \<Rightarrow> py_error + string list list" where
  "csv_stage_online ops location_dict reader =
     (case reader of
        [] \<Rightarrow> Inl StopIteration
      | header # rows \<Rightarrow>
          (case row_loop (process_row_online ops location_dict) [] rows of
             Inl e \<Rightarrow> Inl e
           | Inr (outrow, DOW) \<Rightarrow> sort_outrow ops outrow))"

text \<open>\<^verbatim>\<open>";".join(row) + "\n"\<close> for every record.\<close>

definition csv_lines :: "string list list \<Rightarrow> string list" where
  "csv_lines outrow = map (\<lambda>row. py_join '';'' row @ [CHR 0x0A]) outrow"

section \<open>The JSON script\<close>

subsection \<open>The percent encoder\<close>

text \<open>
  \<^verbatim>\<open>urllib.parse.quote(text, safe=" ")\<close> encodes the text as UTF-8 and writes every
  byte that is neither one of the always safe characters nor in \<open>safe\<close> as a percent sign
  and two upper-case hexadecimal digits. The model's string is the byte sequence.
\<close>

definition always_safe :: "char \<Rightarrow> bool" where
  "always_safe c =
     (c \<in> set ''ABCDEFGHIJKLMNOPQRSTUVWXYZabcdefghijklmnopqrstuvwxyz0123456789_.-~'')"

definition hex_upper :: "nat \<Rightarrow> char" where
  "hex_upper n = ''0123456789ABCDEF'' ! n"

definition quote_byte :: "string \<Rightarrow> char \<Rightarrow> string" where
  "quote_byte safe c =
     (if always_safe c \<or> c \<in> set safe then [c]
      else [CHR ''%'', hex_upper (of_char c div 16), hex_upper (of_char c mod 16)])"

definition py_quote :: "string \<Rightarrow> string \<Rightarrow> string" where
  "py_quote safe text = concat (map (quote_byte safe) text)"

text \<open>
  \<^verbatim>\<open>s.replace(old, new)\<close>: the occurrences of \<open>old\<close> from left to right, without
  overlap. For an empty \<open>old\<close> Python puts \<open>new\<close> before every character and at the end.
\<close>

function py_replace :: "string \<Rightarrow> string \<Rightarrow> string \<Rightarrow> string" where
  "py_replace old new s =
     (if old = [] then new @ concat (map (\<lambda>c. c # new) s)
      else if s = [] then []
      else if take (length old) s = old then new @ py_replace old new (drop (length old) s)
      else hd s # py_replace old new (tl s))"
  by pat_completeness auto
termination
  by (relation "measure (\<lambda>(old, new, s). length s)") auto

declare py_replace.simps [simp del]

text \<open>
  \<^verbatim>\<open>re.sub(r"%[0-9A-Fa-f]{2}", lambda match: match.group(0).lower(), encoded)\<close>: the
  matches from left to right, each replaced by its lower-case form.
\<close>

definition is_hex :: "char \<Rightarrow> bool" where
  "is_hex c = (c \<in> set ''0123456789ABCDEFabcdef'')"

definition py_lower_char :: "char \<Rightarrow> char" where
  "py_lower_char c =
     (if c \<in> set ''ABCDEFGHIJKLMNOPQRSTUVWXYZ'' then char_of (of_char c + (32::nat)) else c)"

fun lower_escapes :: "string \<Rightarrow> string" where
  "lower_escapes (p # a # b # rest) =
     (if p = CHR ''%'' \<and> is_hex a \<and> is_hex b
      then py_lower_char p # py_lower_char a # py_lower_char b # lower_escapes rest
      else p # lower_escapes (a # b # rest))"
| "lower_escapes s = s"

definition encode_preserve_case :: "string \<Rightarrow> string" where
  "encode_preserve_case text =
     lower_escapes
       (py_replace ''%26'' ''&''
       (py_replace ''%29'' '')''
       (py_replace ''%28'' ''(''
       (py_replace ''%2C'' '',''
       (py_replace ''%3E'' ''>''
       (py_replace ''%3C'' ''<''
       (py_replace ''%3A'' '':''
       (py_replace ''%20'' '' ''
       (py_quote '' '' text)))))))))"

text \<open>The dict that \<^verbatim>\<open>percent_encode\<close> returns, as the pair of its two values.\<close>

definition percent_encode :: "string \<Rightarrow> string \<Rightarrow> string \<times> string" where
  "percent_encode station_name details =
     (encode_preserve_case station_name, encode_preserve_case details)"

subsection \<open>Integers from text\<close>

definition digit_value :: "char \<Rightarrow> nat" where
  "digit_value c = of_char c - 48"

definition digits_value :: "string \<Rightarrow> nat" where
  "digits_value s = foldl (\<lambda>a c. 10 * a + digit_value c) 0 s"

text \<open>
  \<^verbatim>\<open>int(s)\<close> on ASCII text: white space at both ends and one sign are allowed, then
  decimal digits, with single underscores between digits.
\<close>

fun digit_groups :: "string \<Rightarrow> bool" where
  "digit_groups [] = False"
| "digit_groups [c] = is_digit c"
| "digit_groups (c # d # rest) =
     (is_digit c \<and> (if d = CHR ''_'' then digit_groups rest else digit_groups (d # rest)))"

definition py_int :: "string \<Rightarrow> py_error + int" where
  "py_int s =
     (let t = py_strip s;
          negative = (t \<noteq> [] \<and> hd t = CHR ''-'');
          body = (if t \<noteq> [] \<and> (hd t = CHR ''-'' \<or> hd t = CHR ''+'') then tl t else t)
      in if digit_groups body
         then Inr ((if negative then - 1 else 1) *
                   int (digits_value (filter (\<lambda>c. c \<noteq> CHR ''_'') body)))
         else Inl ValueError)"

text \<open>
  \<^verbatim>\<open>int(s, 2)\<close> for the strings \<^verbatim>\<open>day_schedule_to_int\<close> builds, which have no other
  character than 0 and 1: the empty string raises ValueError.
\<close>

definition py_int_base2 :: "string \<Rightarrow> py_error + int" where
  "py_int_base2 s =
     (if s \<noteq> [] \<and> list_all (\<lambda>c. c = CHR ''0'' \<or> c = CHR ''1'') s
      then Inr (foldl (\<lambda>a c. 2 * a + (if c = CHR ''1'' then 1 else 0)) 0 s)
      else Inl ValueError)"

definition day_schedule_to_int :: "string \<Rightarrow> py_error + int" where
  "day_schedule_to_int schedule =
     py_int_base2 (map (\<lambda>c. if c \<noteq> CHR ''_'' then CHR ''1'' else CHR ''0'') schedule)"

subsection \<open>The conversion of one row\<close>

text \<open>\<^verbatim>\<open>s.strip('"')\<close>\<close>

definition strip_quotes :: "string \<Rightarrow> string" where
  "strip_quotes s =
     rev (dropWhile (\<lambda>c. c = dquote) (rev (dropWhile (\<lambda>c. c = dquote) s)))"

text \<open>\<^verbatim>\<open>int(x.replace("'", "").strip())\<close>\<close>

definition offset_value :: "string \<Rightarrow> py_error + int" where
  "offset_value x = py_int (py_strip (py_replace [CHR 0x27] [] x))"

text \<open>
  An element of the output array. The metadata dict keeps the order in which its keys
  were first set, so it is an association list, and an assignment is
  \<^const>\<open>AList.update\<close>.
\<close>

record 'f json_entry =
  frequency :: 'f
  band :: string
  station_name :: string
  details :: string
  metadata :: "(string \<times> int) list"

text \<open>
  The statements that fill \<^verbatim>\<open>metadata\<close>, in the order of the source; \<^verbatim>\<open>row[11]\<close> in
  the second statement is read only when \<^verbatim>\<open>row[10]\<close> is blank.
\<close>

definition row_metadata :: "string list \<Rightarrow> py_error + (string \<times> int) list" where
  "row_metadata row =
     bind_err (py_getitem row 10) (\<lambda>r10.
     bind_err (if py_strip r10 \<noteq> []
               then bind_err (offset_value r10) (\<lambda>v. Inr (AList.update ''b0'' v [(''T3'', 1)]))
               else Inr [(''T3'', 1)]) (\<lambda>m1.
     bind_err (if py_strip r10 = []
               then bind_err (py_getitem row 11) (\<lambda>r11.
                      Inr (if py_strip r11 \<noteq> [] then AList.update ''b0'' 0 m1 else m1))
               else Inr m1) (\<lambda>m2.
     bind_err (py_getitem row 11) (\<lambda>r11.
     bind_err (if py_strip r11 \<noteq> []
               then bind_err (offset_value r11) (\<lambda>v. Inr (AList.update ''e0'' v m2))
               else Inr m2) (\<lambda>m3.
     bind_err (Inr (if py_strip r11 = [] \<and> py_strip r10 \<noteq> []
                    then AList.update ''e0'' 0 m3 else m3)) (\<lambda>m4.
     bind_err (py_getitem row 9) (\<lambda>r9.
       if py_strip r9 \<noteq> []
       then bind_err (day_schedule_to_int r9) (\<lambda>d. Inr (AList.update ''d0'' d m4))
       else Inr m4)))))))"

definition json_row :: "('f, 'k) py_float_ops \<Rightarrow> string list \<Rightarrow> py_error + 'f json_entry" where
  "json_row ops row =
     bind_err (py_getitem row 0) (\<lambda>r0.
     bind_err (py_float ops r0) (\<lambda>f.
     bind_err (py_getitem row 1) (\<lambda>r1.
     bind_err (py_getitem row 2) (\<lambda>r2.
     bind_err (py_getitem row 3) (\<lambda>r3.
     bind_err (row_metadata row) (\<lambda>m.
       (case percent_encode (strip_quotes r2) (strip_quotes r3) of
          (encoded_station_name, encoded_details) \<Rightarrow>
            Inr \<lparr>frequency = round2 ops f, band = strip_quotes r1,
                 station_name = encoded_station_name, details = encoded_details,
                 metadata = m\<rparr>)))))))"

text \<open>The loop \<^verbatim>\<open>for row in reader: if row: ...\<close>: an empty row is passed over.\<close>

fun json_loop :: "('f, 'k) py_float_ops \<Rightarrow> string list list \<Rightarrow> py_error + 'f json_entry list" where
  "json_loop ops [] = Inr []"
| "json_loop ops (row # rows) =
     (if row = [] then json_loop ops rows
      else bind_err (json_row ops row) (\<lambda>entry.
           bind_err (json_loop ops rows) (\<lambda>result. Inr (entry # result))))"

text \<open>
  \<^verbatim>\<open>csv_to_json\<close> from the rows of the reader to the list \<^verbatim>\<open>result\<close>, which is written
  one element a line: \<^verbatim>\<open>next(reader, None)\<close> takes the first row away, and does nothing
  when there is none.
\<close>

definition csv_to_json_rows ::
  "('f, 'k) py_float_ops \<Rightarrow> string list list \<Rightarrow> py_error + 'f json_entry list" where
  "csv_to_json_rows ops reader = json_loop ops (tl reader)"

subsection \<open>The reader of the \<^verbatim>\<open>csv\<close> module\<close>

text \<open>
  \<^verbatim>\<open>csv.reader(csvfile, delimiter=";")\<close> is the state machine of CPython's \<^verbatim>\<open>_csv\<close>
  module in its default dialect (quote character \<^verbatim>\<open>"\<close>, doubled quotes, not strict).
  It is fed the characters of each line and an end-of-line signal (\<open>None\<close>) after each; a
  record is complete when the machine is back in \<open>START_RECORD\<close>. The limit on the length
  of a field (131072 characters) is not modelled.
\<close>

datatype csv_state =
  START_RECORD | START_FIELD | IN_FIELD | IN_QUOTED_FIELD | QUOTE_IN_QUOTED_FIELD | EAT_CRNL

record csv_parser =
  p_state :: csv_state
  p_field :: string
  p_fields :: "string list"

definition parse_reset :: "csv_parser" where
  "parse_reset = \<lparr>p_state = START_RECORD, p_field = [], p_fields = []\<rparr>"

definition parse_save_field :: "csv_parser \<Rightarrow> csv_parser" where
  "parse_save_field p = p\<lparr>p_fields := p_fields p @ [p_field p], p_field := []\<rparr>"

definition parse_add_char :: "char \<Rightarrow> csv_parser \<Rightarrow> csv_parser" where
  "parse_add_char c p = p\<lparr>p_field := p_field p @ [c]\<rparr>"

definition is_newline :: "char option \<Rightarrow> bool" where
  "is_newline c = (c = Some (CHR 0x0A) \<or> c = Some (CHR 0x0D))"

definition end_of_record :: "char option \<Rightarrow> csv_parser \<Rightarrow> csv_parser" where
  "end_of_record c p =
     (parse_save_field p)\<lparr>p_state := (if c = None then START_RECORD else EAT_CRNL)\<rparr>"

definition start_field :: "char \<Rightarrow> char option \<Rightarrow> csv_parser \<Rightarrow> csv_parser" where
  "start_field delimiter c p =
     (if is_newline c \<or> c = None then end_of_record c p
      else if c = Some dquote then p\<lparr>p_state := IN_QUOTED_FIELD\<rparr>
      else if c = Some delimiter then (parse_save_field p)\<lparr>p_state := START_FIELD\<rparr>
      else (parse_add_char (the c) p)\<lparr>p_state := IN_FIELD\<rparr>)"

definition parse_process_char ::
  "char \<Rightarrow> csv_parser \<Rightarrow> char option \<Rightarrow> py_error + csv_parser" where
  "parse_process_char delimiter p c =
     (case p_state p of
        START_RECORD \<Rightarrow>
          (if c = None then Inr p
           else if is_newline c then Inr (p\<lparr>p_state := EAT_CRNL\<rparr>)
           else Inr (start_field delimiter c p))
      | START_FIELD \<Rightarrow> Inr (start_field delimiter c p)
      | IN_FIELD \<Rightarrow>
          (if is_newline c \<or> c = None then Inr (end_of_record c p)
           else if c = Some delimiter then Inr ((parse_save_field p)\<lparr>p_state := START_FIELD\<rparr>)
           else Inr (parse_add_char (the c) p))
      | IN_QUOTED_FIELD \<Rightarrow>
          (if c = None then Inr p
           else if c = Some dquote then Inr (p\<lparr>p_state := QUOTE_IN_QUOTED_FIELD\<rparr>)
           else Inr (parse_add_char (the c) p))
      | QUOTE_IN_QUOTED_FIELD \<Rightarrow>
          (if c = Some dquote then Inr ((parse_add_char dquote p)\<lparr>p_state := IN_QUOTED_FIELD\<rparr>)
           else if c = Some delimiter then Inr ((parse_save_field p)\<lparr>p_state := START_FIELD\<rparr>)
           else if is_newline c \<or> c = None then Inr (end_of_record c p)
           else Inr ((parse_add_char (the c) p)\<lparr>p_state := IN_FIELD\<rparr>))
      | EAT_CRNL \<Rightarrow>
          (if is_newline c then Inr p
           else if c = None then Inr (p\<lparr>p_state := START_RECORD\<rparr>)
           else Inl CsvError))"

text \<open>The characters of one line in turn, then the end-of-line signal.\<close>

fun parse_chars :: "char \<Rightarrow> csv_parser \<Rightarrow> string \<Rightarrow> py_error + csv_parser" where
  "parse_chars delimiter p [] = Inr p"
| "parse_chars delimiter p (c # cs) =
     bind_err (parse_process_char delimiter p (Some c)) (\<lambda>p1. parse_chars delimiter p1 cs)"

definition parse_line :: "char \<Rightarrow> csv_parser \<Rightarrow> string \<Rightarrow> py_error + csv_parser" where
  "parse_line delimiter p line =
     bind_err (parse_chars delimiter p line) (\<lambda>p1. parse_process_char delimiter p1 None)"

text \<open>
  The rows the reader yields for the lines of a file, each line with its line break as
  the file object gives it. A record goes on to the next line while the machine is
  not back in \<open>START_RECORD\<close>; at the end of the input a record that was begun is
  yielded as it stands. The script consumes the reader to its end before it writes,
  so every row is computed here at once.
\<close>

fun read_rows :: "char \<Rightarrow> csv_parser \<Rightarrow> string list \<Rightarrow> py_error + string list list" where
  "read_rows delimiter p [] =
     (if p_field p \<noteq> [] \<or> p_state p = IN_QUOTED_FIELD
      then Inr [p_fields (parse_save_field p)] else Inr [])"
| "read_rows delimiter p (line # lines) =
     bind_err (parse_line delimiter p line) (\<lambda>p1.
       if p_state p1 = START_RECORD
       then bind_err (read_rows delimiter parse_reset lines) (\<lambda>rows. Inr (p_fields p1 # rows))
       else read_rows delimiter p1 lines)"

definition csv_reader :: "string list \<Rightarrow> py_error + string list list" where
  "csv_reader lines = read_rows CHR '';'' parse_reset lines"

text \<open>\<^verbatim>\<open>csv_to_json\<close> from the lines of the input file.\<close>

definition csv_to_json :: "('f, 'k) py_float_ops \<Rightarrow> string list \<Rightarrow> py_error + 'f json_entry list" where
  "csv_to_json ops lines = bind_err (csv_reader lines) (csv_to_json_rows ops)"

section \<open>A decimal instance of the float operations\<close>

text \<open>
  To run the model on concrete rows, the float operations are instantiated with exact
  decimal numbers and a NaN: \<open>dec_float_of_str\<close> reads \<^verbatim>\<open>nan\<close> as the NaN and an
  unsigned decimal literal (digits, and optionally a point and digits) as the number it
  denotes, \<open>dec_str_of_float\<close> prints a number with at least one digit after the point
  and the NaN as \<^verbatim>\<open>nan\<close>, as \<^verbatim>\<open>str\<close> prints a double, and \<open>dec_round2\<close> keeps two
  decimals. On the frequencies of the examples below (at most one decimal, below 100000)
  Python's doubles give the same results: \<^verbatim>\<open>str(float("9400")) == "9400.0"\<close>,
  \<^verbatim>\<open>str(float("9400.5")) == "9400.5"\<close>, \<^verbatim>\<open>str(float("nan")) == "nan"\<close>. No example
  reaches \<open>sort_unordered\<close>, which leaves the list as it is here.
\<close>

datatype dec_float = Number real | NaN

definition digit_char :: "nat \<Rightarrow> char" where
  "digit_char n = ''0123456789'' ! n"

function show_nat :: "nat \<Rightarrow> string" where
  "show_nat n =
     (if n < 10 then [digit_char n]
      else show_nat (n div 10) @ [digit_char (n mod 10)])"
  by pat_completeness auto
termination
  by (relation "measure id") auto

declare show_nat.simps [simp del]

fun frac_digits :: "nat \<Rightarrow> real \<Rightarrow> string" where
  "frac_digits n r =
     (if n = 0 \<or> r = 0 then []
      else digit_char (nat \<lfloor>10 * r\<rfloor>) #
           frac_digits (n - 1) (10 * r - of_int \<lfloor>10 * r\<rfloor>))"

declare frac_digits.simps [simp del]

definition dec_float_of_str :: "string \<Rightarrow> dec_float option" where
  "dec_float_of_str s =
     (let ip = takeWhile is_digit s; rest = dropWhile is_digit s
      in if s = ''nan'' then Some NaN
         else if rest = [] then
           (if ip = [] then None else Some (Number (of_nat (digits_value ip))))
         else if hd rest = CHR ''.'' \<and> list_all is_digit (tl rest)
                 \<and> (ip \<noteq> [] \<or> tl rest \<noteq> [])
              then Some (Number (of_nat (digits_value (ip @ tl rest)) / 10 ^ length (tl rest)))
              else None)"

fun dec_str_of_float :: "dec_float \<Rightarrow> string" where
  "dec_str_of_float NaN = ''nan''"
| "dec_str_of_float (Number q) =
     show_nat (nat \<lfloor>q\<rfloor>) @ ''.'' @
       (if q = of_int \<lfloor>q\<rfloor> then ''0'' else frac_digits 17 (q - of_int \<lfloor>q\<rfloor>))"

fun dec_round2 :: "dec_float \<Rightarrow> dec_float" where
  "dec_round2 NaN = NaN"
| "dec_round2 (Number q) = Number (of_int \<lfloor>100 * q + 1 / 2\<rfloor> / 100)"

fun dec_value :: "dec_float \<Rightarrow> real option" where
  "dec_value NaN = None"
| "dec_value (Number q) = Some q"

definition dec_ops :: "(dec_float, real) py_float_ops" where
  "dec_ops =
     \<lparr>float_of_str = dec_float_of_str, str_of_float = dec_str_of_float,
      round2 = dec_round2, float_value = dec_value,
      sort_unordered = (\<lambda>keys outrow. outrow)\<rparr>"

section \<open>Notions of the specification\<close>

text \<open>
  The days of a range in the words of the specification: from the position \<open>i\<close> of the
  Monday-first list to the position \<open>j\<close>, and past Sunday back to Monday when \<open>j\<close> comes
  before \<open>i\<close>.
\<close>

definition range_days :: "nat \<Rightarrow> nat \<Rightarrow> string list" where
  "range_days i j =
     (if i \<le> j then map ((!) weekdays) [i..<Suc j]
      else map ((!) weekdays) [i..<7] @ map ((!) weekdays) [0..<Suc j])"

text \<open>
  The weekday of a digit in the words of the specification: 1 to 7 are Monday to Sunday,
  the position \<open>d - 1\<close> of the Monday-first list, and 0 is Sunday.
\<close>

definition digit_weekday :: "char \<Rightarrow> string" where
  "digit_weekday c = (if c = CHR ''0'' then ''Su'' else weekdays ! (digit_value c - 1))"

text \<open>
  The conditions of the \<^verbatim>\<open>if\<close> chain of the day branch, as the specification names
  them: a day field reaches the range branch when the first two conditions fail and the
  third holds; it is unrecognized when all three fail.
\<close>

definition reaches_range_branch :: "bool \<Rightarrow> string \<Rightarrow> bool" where
  "reaches_range_branch online day =
     (\<not> py_isdigit day \<and>
      \<not> (CHR '','' \<in> set day \<or> days day \<noteq> None \<or> day = ''SaSu'' \<or> py_startswith ''1.'' day) \<and>
      CHR ''-'' \<in> set day \<and> (if online then last day \<noteq> CHR ''-'' else True))"

definition day_unrecognized :: "bool \<Rightarrow> string \<Rightarrow> bool" where
  "day_unrecognized online day =
     (\<not> py_isdigit day \<and>
      \<not> (CHR '','' \<in> set day \<or> days day \<noteq> None \<or> day = ''SaSu'' \<or> py_startswith ''1.'' day) \<and>
      \<not> (CHR ''-'' \<in> set day \<and> (if online then last day \<noteq> CHR ''-'' else True)))"

text \<open>
  The seven-character binary string of a weekday mask, Monday's bit first: the bit of
  weight \<open>2 ^ k\<close> for \<open>k\<close> from 6 down to 0. \<open>bin_digits n m\<close> are the \<open>n\<close> low-order
  binary digits of \<open>m\<close>, the same string for \<open>n = 7\<close>.
\<close>

definition mask_binstring :: "nat \<Rightarrow> string" where
  "mask_binstring m =
     map (\<lambda>k. if odd (m div 2 ^ k) then CHR ''1'' else CHR ''0'') [6, 5, 4, 3, 2, 1, 0]"

fun bin_digits :: "nat \<Rightarrow> nat \<Rightarrow> string" where
  "bin_digits 0 m = []"
| "bin_digits (Suc n) m = bin_digits n (m div 2) @ [if odd m then CHR ''1'' else CHR ''0'']"

text \<open>
  The relay field in the words of the specification: the country code is the part before
  the slash without its first character, the site is the part after the slash.
\<close>

definition spec_relay_site :: "string \<Rightarrow> string \<times> string" where
  "spec_relay_site r7 =
     (drop 1 (takeWhile (\<lambda>c. c \<noteq> CHR ''/'') r7), drop 1 (dropWhile (\<lambda>c. c \<noteq> CHR ''/'') r7))"

text \<open>
  The relay field read at its hyphens: the country code is the part before the first
  hyphen without its first character, the site is the part between the first hyphen and
  the second, and is empty when the field has no hyphen.
\<close>

definition hyphen_relay_site :: "string \<Rightarrow> string \<times> string" where
  "hyphen_relay_site r7 =
     (drop 1 (takeWhile (\<lambda>c. c \<noteq> CHR ''-'') r7),
      takeWhile (\<lambda>c. c \<noteq> CHR ''-'') (drop 1 (dropWhile (\<lambda>c. c \<noteq> CHR ''-'') r7)))"

section \<open>Properties of the Python operations\<close>

lemma bind_err_simps [simp]:
  "bind_err (Inr x) f = f x"
  "bind_err (Inl e) f = Inl e"
  by (simp_all add: bind_err_def)

lemma bind_err_Inr_iff:
  "(bind_err m f = Inr y) = (\<exists>x. m = Inr x \<and> f x = Inr y)"
  by (cases m) simp_all

lemma lt7_cases:
  "i < (7::nat) \<Longrightarrow> i = 0 \<or> i = 1 \<or> i = 2 \<or> i = 3 \<or> i = 4 \<or> i = 5 \<or> i = 6"
  by arith

subsection \<open>Splitting and joining\<close>

lemma py_split_not_Nil [simp]: "py_split sep s \<noteq> []"
  by (induction s) auto

lemma py_split_no_sep: "sep \<notin> set s \<Longrightarrow> py_split sep s = [s]"
  by (induction s) auto

lemma py_split_append: "sep \<notin> set s \<Longrightarrow> py_split sep (s @ sep # r) = s # py_split sep r"
  by (induction s) auto

lemma hd_py_split: "hd (py_split sep s) = takeWhile (\<lambda>c. c \<noteq> sep) s"
  by (induction s) auto

lemma tl_py_split:
  "sep \<in> set s \<Longrightarrow> tl (py_split sep s) = py_split sep (tl (dropWhile (\<lambda>c. c \<noteq> sep) s))"
  by (induction s) auto

lemma tl_py_split_no_sep: "sep \<notin> set s \<Longrightarrow> tl (py_split sep s) = []"
  by (simp add: py_split_no_sep)

lemma py_split_join:
  "ws \<noteq> [] \<Longrightarrow> \<forall>w \<in> set ws. sep \<notin> set w \<Longrightarrow> py_split sep (py_join [sep] ws) = ws"
proof (induction ws rule: induct_list012)
  case 1
  then show ?case by simp
next
  case (2 x)
  then show ?case by (simp add: py_split_no_sep)
next
  case (3 x y zs)
  then have "py_split sep (py_join [sep] (y # zs)) = y # zs" by simp
  moreover have "sep \<notin> set x" using 3 by simp
  ultimately show ?case by (simp add: py_split_append)
qed

subsection \<open>Positions in a list\<close>

lemma py_list_index_isl: "isl (py_list_index xs x) = (x \<notin> set xs)"
proof (induction xs)
  case Nil
  then show ?case by simp
next
  case (Cons y ys)
  then show ?case by (cases "py_list_index ys x") auto
qed

lemma py_list_index_Inl: "py_list_index xs x = Inl e \<Longrightarrow> e = ValueError"
  by (induction xs arbitrary: e) (simp_all split: if_splits sum.splits)

lemma py_list_index_nth:
  "distinct xs \<Longrightarrow> i < length xs \<Longrightarrow> py_list_index xs (xs ! i) = Inr i"
proof (induction xs arbitrary: i)
  case Nil
  then show ?case by simp
next
  case (Cons y ys)
  show ?case
  proof (cases i)
    case 0
    then show ?thesis by simp
  next
    case (Suc j)
    with Cons.prems have "j < length ys" "ys ! j \<noteq> y" "distinct ys" by auto
    with Cons.IH [of j] Suc show ?thesis by simp
  qed
qed

section \<open>Weekday ranges\<close>

lemma expand_weekday_range_nth:
  assumes "i < 7" and "j < 7"
  shows "expand_weekday_range (weekdays ! i @ ''-'' @ weekdays ! j) =
           Inr (py_join '','' (range_days i j))"
  using lt7_cases [OF assms(1)] lt7_cases [OF assms(2)]
  by (elim disjE; simp add: expand_weekday_range_def weekdays_def upt_rec range_days_def)

lemma range_days_no_comma: 
  assumes "i < 7" and "j < 7"
  shows "range_days i j \<noteq> [] \<and> (\<forall>w \<in> set (range_days i j). CHR '','' \<notin> set w)"
  using lt7_cases [OF assms(1)] lt7_cases [OF assms(2)]
  by (elim disjE; simp add: weekdays_def upt_rec range_days_def)

text \<open>
  Claim C4. For a day field \<open>start-end\<close> whose two ends are the weekday abbreviations at
  the positions \<open>i\<close> and \<open>j\<close> of the Monday-first list, \<^verbatim>\<open>expand_weekday_range\<close> returns,
  joined by commas, the abbreviations at the positions \<open>i\<close> to \<open>j\<close> when \<open>i \<le> j\<close>, and
  otherwise those from \<open>i\<close> to Sunday followed by those from Monday to \<open>j\<close>; splitting the
  result at the commas, as \<^verbatim>\<open>weekdays_to_binstrings\<close> does, gives that list back. In
  particular \<^verbatim>\<open>Sa-Tu\<close> gives Sa, Su, Mo, Tu and \<^verbatim>\<open>Mo-Th\<close> gives Mo, Tu, We, Th.
\<close>

theorem expand_weekday_range_wraps:
  assumes "i < 7" and "j < 7"
  shows "expand_weekday_range (weekdays ! i @ ''-'' @ weekdays ! j) =
           Inr (py_join '','' (range_days i j))
         \<and> py_split CHR '','' (py_join '','' (range_days i j)) = range_days i j
         \<and> expand_weekday_range ''Sa-Tu'' = Inr ''Sa,Su,Mo,Tu''
         \<and> expand_weekday_range ''Mo-Th'' = Inr ''Mo,Tu,We,Th''"
proof -
  have "py_split CHR '','' (py_join '','' (range_days i j)) = range_days i j"
    using range_days_no_comma [OF assms] by (intro py_split_join) auto
  moreover have "expand_weekday_range ''Sa-Tu'' = Inr ''Sa,Su,Mo,Tu''"
    by (simp add: expand_weekday_range_def weekdays_def)
  moreover have "expand_weekday_range ''Mo-Th'' = Inr ''Mo,Tu,We,Th''"
    by (simp add: expand_weekday_range_def weekdays_def)
  ultimately show ?thesis
    using expand_weekday_range_nth [OF assms] by simp
qed

theorem expand_weekday_range_wraps_witness:
  "expand_weekday_range ''Fr-Mo'' = Inr ''Fr,Sa,Su,Mo''
   \<and> py_split CHR '','' ''Fr,Sa,Su,Mo'' = [''Fr'', ''Sa'', ''Su'', ''Mo'']"
  using expand_weekday_range_wraps [of 4 0]
  by (simp add: weekdays_def upt_rec range_days_def)

section \<open>Day expressions of digits\<close>

lemma is_digit_cases:
  "is_digit c \<Longrightarrow> c = CHR ''0'' \<or> c = CHR ''1'' \<or> c = CHR ''2'' \<or> c = CHR ''3'' \<or> c = CHR ''4''
     \<or> c = CHR ''5'' \<or> c = CHR ''6'' \<or> c = CHR ''7'' \<or> c = CHR ''8'' \<or> c = CHR ''9''"
  by (simp add: is_digit_def)

lemma digit_step_low:
  assumes "is_digit c" and "c \<noteq> CHR ''8''" and "c \<noteq> CHR ''9''"
  shows "py_int_char c = Inr (int (digit_value c))"
    and "py_getitem weekdays (int (digit_value c) - 1) = Inr (digit_weekday c)"
    and "days (digit_weekday c) \<noteq> None"
    and "CHR '','' \<notin> set (digit_weekday c)"
  using is_digit_cases [OF assms(1)] assms(2,3)
  by (elim disjE; simp add: py_int_char_def is_digit_def digit_value_def py_getitem_def
        weekdays_def digit_weekday_def days_def)+

lemma digit_step_high:
  assumes "c = CHR ''8'' \<or> c = CHR ''9''"
  shows "py_int_char c = Inr (int (digit_value c))"
    and "py_getitem weekdays (int (digit_value c) - 1) = Inl IndexError"
  using assms
  by (elim disjE; simp add: py_int_char_def is_digit_def digit_value_def py_getitem_def
        weekdays_def)+

lemma numbers_to_weekdays_low:
  assumes "list_all is_digit s" and "CHR ''8'' \<notin> set s" and "CHR ''9'' \<notin> set s"
  shows "numbers_to_weekdays s = Inr (map digit_weekday s)"
  using assms
proof (induction s)
  case Nil
  then show ?case by simp
next
  case (Cons c s)
  then have c: "is_digit c" "c \<noteq> CHR ''8''" "c \<noteq> CHR ''9''" by auto
  from Cons have "numbers_to_weekdays s = Inr (map digit_weekday s)" by simp
  then show ?case by (simp add: digit_step_low [OF c])
qed

lemma numbers_to_weekdays_high:
  assumes "list_all is_digit s" and "CHR ''8'' \<in> set s \<or> CHR ''9'' \<in> set s"
  shows "numbers_to_weekdays s = Inl IndexError"
  using assms
proof (induction s)
  case Nil
  then show ?case by simp
next
  case (Cons c s)
  show ?case
  proof (cases "c = CHR ''8'' \<or> c = CHR ''9''")
    case True
    then show ?thesis by (simp add: digit_step_high)
  next
    case False
    with Cons.prems have c: "is_digit c" "c \<noteq> CHR ''8''" "c \<noteq> CHR ''9''" by auto
    from False Cons have "numbers_to_weekdays s = Inl IndexError" by auto
    then show ?thesis by (simp add: digit_step_low [OF c])
  qed
qed

lemma lookup_all_map:
  "\<forall>d \<in> set ds. days_dict d \<noteq> None \<Longrightarrow> lookup_all days_dict ds = Inr (map (\<lambda>d. the (days_dict d)) ds)"
  by (induction ds) (auto simp: py_dict_get_def)

text \<open>
  Claim C10. For a day expression of decimal digits only, the digit parser
  \<^verbatim>\<open>weekdaynumbers_to_binstrings\<close> looks each digit \<open>d\<close> up at the position
  \<open>int(d) - 1\<close> of the Monday-first list: the digits 1 to 7 give Monday to Sunday, the
  digit 0 is accepted and gives Sunday (the index \<open>-1\<close> is the last element), and an
  expression with a digit 8 or 9 raises IndexError, in the function and so in the day
  branch of the row loop of either script.
\<close>

theorem weekdaynumbers_digits:
  assumes "py_isdigit s"
  shows "(if CHR ''8'' \<in> set s \<or> CHR ''9'' \<in> set s
          then weekdaynumbers_to_binstrings s days = Inl IndexError
               \<and> day_branch online DOW s = Inl IndexError
          else weekdaynumbers_to_binstrings s days =
                 Inr (map (\<lambda>c. the (days (digit_weekday c))) s))
         \<and> map digit_weekday ''01234567'' =
             [''Su'', ''Mo'', ''Tu'', ''We'', ''Th'', ''Fr'', ''Sa'', ''Su'']"
proof -
  from assms have s: "s \<noteq> []" "list_all is_digit s" by (simp_all add: py_isdigit_def)
  have table: "map digit_weekday ''01234567'' =
      [''Su'', ''Mo'', ''Tu'', ''We'', ''Th'', ''Fr'', ''Sa'', ''Su'']"
    by (simp add: digit_weekday_def digit_value_def weekdays_def)
  show ?thesis
  proof (cases "CHR ''8'' \<in> set s \<or> CHR ''9'' \<in> set s")
    case True
    then show ?thesis
      using table numbers_to_weekdays_high [OF s(2) True] assms
      by (simp add: weekdaynumbers_to_binstrings_def day_branch_def)
  next
    case False
    then have no: "CHR ''8'' \<notin> set s" "CHR ''9'' \<notin> set s" by auto
    have each: "\<forall>c \<in> set s. days (digit_weekday c) \<noteq> None \<and> CHR '','' \<notin> set (digit_weekday c)"
    proof
      fix c assume "c \<in> set s"
      with s(2) no have "is_digit c" "c \<noteq> CHR ''8''" "c \<noteq> CHR ''9''"
        by (auto simp: list_all_iff)
      then show "days (digit_weekday c) \<noteq> None \<and> CHR '','' \<notin> set (digit_weekday c)"
        using digit_step_low(3,4) by blast
    qed
    have "py_split CHR '','' (py_join '','' (map digit_weekday s)) = map digit_weekday s"
      using s(1) each by (intro py_split_join) auto
    moreover have "lookup_all days (map digit_weekday s) =
        Inr (map (\<lambda>d. the (days d)) (map digit_weekday s))"
      using each by (intro lookup_all_map) auto
    ultimately show ?thesis
      using table False numbers_to_weekdays_low [OF s(2) no]
      by (simp add: weekdaynumbers_to_binstrings_def weekdays_to_binstrings_def comp_def)
  qed
qed

theorem weekdaynumbers_digits_witness:
  "weekdaynumbers_to_binstrings ''1345'' days =
     Inr [''1000000'', ''0010000'', ''0001000'', ''0000100'']
   \<and> weekdaynumbers_to_binstrings ''0'' days = Inr [''0000001'']
   \<and> weekdaynumbers_to_binstrings ''18'' days = Inl IndexError
   \<and> day_branch False [] ''18'' = Inl IndexError"
  using weekdaynumbers_digits [of "''1345''"] weekdaynumbers_digits [of "''0''"]
    weekdaynumbers_digits [of "''18''" False "[]"]
  by (simp add: py_isdigit_def is_digit_def digit_weekday_def digit_value_def weekdays_def days_def)

lemma isl_bind_err: "isl (bind_err m f) = (isl m \<or> (\<exists>x. m = Inr x \<and> isl (f x)))"
  by (cases m) simp_all

lemma py_getitem_nat: "n < length xs \<Longrightarrow> py_getitem xs (int n) = Inr (xs ! n)"
  by (simp add: py_getitem_def)

lemma py_getitem_Inr_nat: "py_getitem xs (int n) = Inr x \<Longrightarrow> n < length xs \<and> x = xs ! n"
  by (simp add: py_getitem_def split: if_splits)

lemma py_getitem_numeral:
  "numeral k < length xs \<Longrightarrow> py_getitem xs (numeral k) = Inr (xs ! numeral k)"
  using py_getitem_nat [of "numeral k" xs] by simp

lemma py_getitem_numeral_Inr:
  "py_getitem xs (numeral k) = Inr x \<Longrightarrow> numeral k < length xs \<and> x = xs ! numeral k"
  using py_getitem_Inr_nat [of xs "numeral k" x] by simp

section \<open>The row loop and the day field\<close>

lemma day_branch_unrecognized:
  "day_unrecognized online day \<Longrightarrow> day_branch online DOW day = Inr DOW"
  by (auto simp: day_unrecognized_def day_branch_def)

lemma process_row_Inr:
  assumes "process_row ops DOW row = Inr (r, D)"
  shows "D = [] \<and> 2 < length row \<and> (\<exists>DOW1. day_branch False DOW (row ! 2) = Inr DOW1 \<and> r ! 9 = quote_dow DOW1)"
  using assms
  by (auto simp: process_row_def bind_err_Inr_iff out_record_def Let_def
      dest!: py_getitem_numeral_Inr split: prod.splits)

lemma process_row_online_Inr:
  assumes "process_row_online ops loc DOW row = Inr (r, D)"
  shows "D = [] \<and> 2 < length row \<and> (\<exists>DOW1. day_branch True DOW (row ! 2) = Inr DOW1 \<and> r ! 9 = quote_dow DOW1)"
  using assms
  by (auto simp: process_row_online_def bind_err_Inr_iff out_record_def Let_def
      dest!: py_getitem_numeral_Inr split: prod.splits)

lemma row_loop_nth:
  assumes reset: "\<And>D row r D'. step D row = Inr (r, D') \<Longrightarrow> D' = []"
    and "row_loop step [] rows = Inr (out, D)"
  shows "length out = length rows \<and> (\<forall>i<length rows. step [] (rows ! i) = Inr (out ! i, []))"
  using assms(2)
proof (induction rows arbitrary: out D)
  case Nil
  then show ?case by simp
next
  case (Cons row rows)
  from Cons.prems obtain r D1 out1 where
    step: "step [] row = Inr (r, D1)" and loop: "row_loop step D1 rows = Inr (out1, D)"
    and out: "out = r # out1"
    by (auto split: sum.splits prod.splits)
  from reset [OF step] have D1: "D1 = []" .
  from Cons.IH [of out1 D] loop D1 have
    IH: "length out1 = length rows" "\<forall>i<length rows. step [] (rows ! i) = Inr (out1 ! i, [])"
    by auto
  show ?case
  proof (intro conjI allI impI)
    show "length out = length (row # rows)" using IH(1) out by simp
  next
    fix i assume "i < length (row # rows)"
    then show "step [] ((row # rows) ! i) = Inr (out ! i, [])"
      using IH(2) step D1 out by (cases i) auto
  qed
qed

lemma row_loop_abort:
  "row \<in> set rows \<Longrightarrow> (\<And>D. isl (step D row)) \<Longrightarrow> isl (row_loop step D0 rows)"
proof (induction rows arbitrary: D0)
  case Nil
  then show ?case by simp
next
  case (Cons a rows)
  show ?case
  proof (cases "step D0 a")
    case (Inl e)
    then show ?thesis by simp
  next
    case (Inr p)
    have "a \<noteq> row" using Inr Cons.prems(2) [of D0] by auto
    with Cons.prems have "row \<in> set rows" by simp
    then have "isl (row_loop step (snd p) rows)"
      using Cons.IH Cons.prems(2) by blast
    with Inr show ?thesis
      by (cases p; cases "row_loop step (snd p) rows") auto
  qed
qed


lemma process_row_day_error:
  assumes "2 < length row" and "isl (day_branch False DOW (row ! 2))"
  shows "isl (process_row ops DOW row)"
proof -
  have g: "py_getitem row 0 = Inr (row ! 0)" "py_getitem row 1 = Inr (row ! 1)"
    "py_getitem row 2 = Inr (row ! 2)"
    using assms(1) by (auto simp: py_getitem_def)
  show ?thesis
    using assms(2) unfolding process_row_def g bind_err_simps
    by (cases "py_float ops (row ! 0)"; cases "split_times (row ! 1)";
        cases "day_branch False DOW (row ! 2)") auto
qed

lemma range_branch_expand:
  assumes "reaches_range_branch online day"
  shows "day_branch online DOW day =
          bind_err (expand_weekday_range day) (\<lambda>r0.
          bind_err (weekdays_to_binstrings r0 days) (\<lambda>r.
            binstring_to_dowstring (create_weekly_binstring r)))"
  using assms
  by (auto simp: reaches_range_branch_def day_branch_def bind_err_def split: sum.splits)

lemma expand_weekday_range_isl:
  assumes "CHR ''-'' \<notin> set s" and "CHR ''-'' \<notin> set e"
  shows "isl (expand_weekday_range (s @ ''-'' @ e)) = (s \<notin> set weekdays \<or> e \<notin> set weekdays)"
    and "s \<notin> set weekdays \<or> e \<notin> set weekdays \<Longrightarrow>
           expand_weekday_range (s @ ''-'' @ e) = Inl ValueError"
proof -
  have sp: "py_split CHR ''-'' (s @ CHR ''-'' # e) = [s, e]"
    using assms by (simp add: py_split_append py_split_no_sep)
  show "isl (expand_weekday_range (s @ ''-'' @ e)) = (s \<notin> set weekdays \<or> e \<notin> set weekdays)"
    using py_list_index_isl [of weekdays s] py_list_index_isl [of weekdays e]
    by (cases "py_list_index weekdays s"; cases "py_list_index weekdays e")
       (simp_all add: expand_weekday_range_def sp)
  show "expand_weekday_range (s @ ''-'' @ e) = Inl ValueError"
    if "s \<notin> set weekdays \<or> e \<notin> set weekdays"
    using that py_list_index_isl [of weekdays s] py_list_index_isl [of weekdays e]
    by (cases "py_list_index weekdays s"; cases "py_list_index weekdays e")
       (auto simp: expand_weekday_range_def sp dest: py_list_index_Inl)
qed

text \<open>
  Claim C5. For a day field with one hyphen, \<open>s-e\<close>, that reaches the range branch of
  \<^verbatim>\<open>eibi2kiwi.py\<close>, \<^verbatim>\<open>expand_weekday_range\<close> raises an exception exactly when \<open>s\<close> or \<open>e\<close> is
  not one of the seven weekday abbreviations. The exception is the ValueError of
  \<^verbatim>\<open>list.index\<close>; the day branch passes it on, and a run whose input has a row with such
  a day field ends in an exception, whatever the other rows are: nothing is written.
\<close>

theorem range_error_iff_bad_endpoint:
  assumes "CHR ''-'' \<notin> set s" and "CHR ''-'' \<notin> set e"
    and "reaches_range_branch False (s @ ''-'' @ e)"
  shows "isl (expand_weekday_range (s @ ''-'' @ e)) = (s \<notin> set weekdays \<or> e \<notin> set weekdays)
       \<and> (s \<notin> set weekdays \<or> e \<notin> set weekdays \<longrightarrow>
            expand_weekday_range (s @ ''-'' @ e) = Inl ValueError
          \<and> day_branch False DOW (s @ ''-'' @ e) = Inl ValueError
          \<and> (\<forall>row \<in> set rows. 2 < length row \<and> row ! 2 = s @ ''-'' @ e \<longrightarrow>
                isl (csv_stage ops (header # rows))))"
proof (intro conjI impI ballI)
  show "isl (expand_weekday_range (s @ ''-'' @ e)) = (s \<notin> set weekdays \<or> e \<notin> set weekdays)"
    by (rule expand_weekday_range_isl(1) [OF assms(1,2)])
next
  assume bad: "s \<notin> set weekdays \<or> e \<notin> set weekdays"
  show ex: "expand_weekday_range (s @ ''-'' @ e) = Inl ValueError"
    by (rule expand_weekday_range_isl(2) [OF assms(1,2) bad])
  show db: "day_branch False D (s @ ''-'' @ e) = Inl ValueError" for D
    unfolding range_branch_expand [OF assms(3)] ex by simp
  fix row assume row: "row \<in> set rows" "2 < length row \<and> row ! 2 = s @ ''-'' @ e"
  have "isl (process_row ops D row)" for D
    using row(2) db [of D] by (intro process_row_day_error) auto
  then have "isl (row_loop (process_row ops) [] rows)"
    using row(1) by (intro row_loop_abort)
  then show "isl (csv_stage ops (header # rows))"
    by (cases "row_loop (process_row ops) [] rows") (simp_all add: csv_stage_def)
qed

theorem range_error_iff_bad_endpoint_witness:
  "expand_weekday_range ''Mo-Xx'' = Inl ValueError
   \<and> day_branch False [] ''Mo-Xx'' = Inl ValueError
   \<and> isl (csv_stage dec_ops
        [[], [''9400'', ''0600-1800'', ''1345'', ''D'', ''Deutsche Welle'', ''E'', [], []],
             [''9410'', ''0600-1800'', ''Mo-Xx'', ''D'', ''Deutsche Welle'', ''E'', [], []]])
   \<and> \<not> isl (expand_weekday_range ''Mo-Fr'')"
  using range_error_iff_bad_endpoint [of "''Mo''" "''Xx''" "[]"
      "[[''9400'', ''0600-1800'', ''1345'', ''D'', ''Deutsche Welle'', ''E'', [], []],
        [''9410'', ''0600-1800'', ''Mo-Xx'', ''D'', ''Deutsche Welle'', ''E'', [], []]]"
      dec_ops "[]"]
    range_error_iff_bad_endpoint [of "''Mo''" "''Fr''"]
  by (simp add: reaches_range_branch_def py_isdigit_def is_digit_def days_def py_startswith_def
      weekdays_def)


subsection \<open>Two rows, the second with the day field irr\<close>

lemma process_row_eval:
  assumes "float_of_str ops f = Some khz" and "split_times t = Inr (b, e)"
    and "day_branch False DOW day = Inr DOW1"
  shows "process_row ops DOW [f, t, day, itu, ident, r5, r6, rem] =
           Inr (out_record (str_of_float ops khz) ident
                  (if rem = [] then itu @ ''. '' @ target_text (py_strip r6) @ '' '' @ lang_text (py_strip r5)
                   else itu @ '' via '' @ rem @ ''. '' @ target_text (py_strip r6) @ '' '' @ lang_text (py_strip r5))
                  (type_of_lang (py_strip r5)) (quote_dow DOW1) b e, [])"
  using assms by (simp add: process_row_def py_getitem_def py_float_def Let_def)

lemma day_branch_1345: "day_branch online DOW ''1345'' = Inr ''M_WTF__''"
  by (simp add: day_branch_def py_isdigit_def is_digit_def weekdaynumbers_to_binstrings_def
     py_int_char_def py_getitem_def weekdays_def weekdays_to_binstrings_def days_def py_dict_get_def
     create_weekly_binstring_def py_zip_star.simps binstring_to_dowstring_def day_letters_def)

lemma day_unrecognized_irr: "day_unrecognized online ''irr''"
  by (simp add: day_unrecognized_def py_isdigit_def is_digit_def days_def py_startswith_def)

lemma split_times_0600_1800: "split_times ''0600-1800'' = Inr (''0600'', ''1800'')"
  by (simp add: split_times_def)

lemma dec_float_9400: "float_of_str dec_ops ''9400'' = Some (Number 9400)"
  by (simp add: dec_ops_def dec_float_of_str_def is_digit_def digits_value_def digit_value_def)

lemma dec_float_9410: "float_of_str dec_ops ''9410'' = Some (Number 9410)"
  by (simp add: dec_ops_def dec_float_of_str_def is_digit_def digits_value_def digit_value_def)

lemma dec_str_9400: "str_of_float dec_ops (Number 9400) = ''9400.0''"
  by (simp add: dec_ops_def show_nat.simps digit_char_def)

lemma dec_str_9410: "str_of_float dec_ops (Number 9410) = ''9410.0''"
  by (simp add: dec_ops_def show_nat.simps digit_char_def)

lemma strip_E: "py_strip ''E'' = ''E''" "py_strip [] = []"
  by (simp_all add: py_strip_def is_space_def)

lemma two_rows_run:
  "row_loop (process_row dec_ops) []
      [[''9400'', ''0600-1800'', ''1345'', ''D'', ''Deutsche Welle'', ''E'', [], []],
       [''9410'', ''0600-1800'', ''irr'', ''D'', ''Deutsche Welle'', ''E'', [], []]] =
    Inr ([out_record ''9400.0'' ''Deutsche Welle'' ''D.  Lang: E'' ''T3''
            (py_quoted ''M_WTF__'') ''0600'' ''1800'',
          out_record ''9410.0'' ''Deutsche Welle'' ''D.  Lang: E'' ''T3''
            [] ''0600'' ''1800''], [])"
  by (simp add: process_row_eval [OF dec_float_9400 split_times_0600_1800 day_branch_1345]
      process_row_eval [OF dec_float_9410 split_times_0600_1800
        day_branch_unrecognized [OF day_unrecognized_irr]]
      dec_str_9400 dec_str_9410 strip_E target_text_def lang_text_def type_of_lang_def
      py_startswith_def quote_dow_def)

text \<open>
  Claim C1 says that a row whose day field matches none of the three syntaxes is emitted
  with the day letters computed for the row before. It is not: the row after a row with
  the day field \<^verbatim>\<open>1345\<close>, day letters \<^verbatim>\<open>M_WTF__\<close>, has the day field \<^verbatim>\<open>irr\<close> and is
  emitted with an empty day-letter field.
\<close>

theorem dow_carry_over_counterexample:
  "row_loop (process_row dec_ops) []
      [[''9400'', ''0600-1800'', ''1345'', ''D'', ''Deutsche Welle'', ''E'', [], []],
       [''9410'', ''0600-1800'', ''irr'', ''D'', ''Deutsche Welle'', ''E'', [], []]] =
    Inr ([out_record ''9400.0'' ''Deutsche Welle'' ''D.  Lang: E'' ''T3''
            (py_quoted ''M_WTF__'') ''0600'' ''1800'',
          out_record ''9410.0'' ''Deutsche Welle'' ''D.  Lang: E'' ''T3''
            [] ''0600'' ''1800''], [])
   \<and> day_unrecognized False ''irr''
   \<and> out_record ''9400.0'' ''Deutsche Welle'' ''D.  Lang: E'' ''T3''
            (py_quoted ''M_WTF__'') ''0600'' ''1800'' ! 9 = py_quoted ''M_WTF__''
   \<and> out_record ''9410.0'' ''Deutsche Welle'' ''D.  Lang: E'' ''T3''
            [] ''0600'' ''1800'' ! 9 \<noteq> py_quoted ''M_WTF__''"
  using two_rows_run day_unrecognized_irr [of False]
  by (simp add: out_record_def py_quoted_def)

text \<open>
  Claim C1, amended. \<^verbatim>\<open>DOW\<close> is empty when the loop starts and the last statement of
  the loop body empties it again, so every row starts with an empty \<^verbatim>\<open>DOW\<close>: in both
  CSV scripts, a row whose day field matches none of the three syntaxes is emitted with an
  empty day-letter field (field 9 of its record), whatever the rows before it were.
\<close>

theorem unrecognized_day_emits_empty:
  "(row_loop (process_row ops) [] rows = Inr (outrow, D) \<and> i < length rows
      \<and> day_unrecognized False (rows ! i ! 2) \<longrightarrow> outrow ! i ! 9 = [])
   \<and> (row_loop (process_row_online ops location_dict) [] rows = Inr (outrow', D')
      \<and> i < length rows \<and> day_unrecognized True (rows ! i ! 2) \<longrightarrow> outrow' ! i ! 9 = [])"
proof (intro conjI impI)
  assume a: "row_loop (process_row ops) [] rows = Inr (outrow, D) \<and> i < length rows
      \<and> day_unrecognized False (rows ! i ! 2)"
  have "process_row ops [] (rows ! i) = Inr (outrow ! i, [])"
    using row_loop_nth [of "process_row ops" rows outrow D] a process_row_Inr by blast
  from process_row_Inr [OF this] a show "outrow ! i ! 9 = []"
    by (auto simp: day_branch_unrecognized quote_dow_def)
next
  assume a: "row_loop (process_row_online ops location_dict) [] rows = Inr (outrow', D')
      \<and> i < length rows \<and> day_unrecognized True (rows ! i ! 2)"
  have "process_row_online ops location_dict [] (rows ! i) = Inr (outrow' ! i, [])"
    using row_loop_nth [of "process_row_online ops location_dict" rows outrow' D'] a
      process_row_online_Inr by blast
  from process_row_online_Inr [OF this] a show "outrow' ! i ! 9 = []"
    by (auto simp: day_branch_unrecognized quote_dow_def)
qed

theorem unrecognized_day_emits_empty_witness:
  "day_unrecognized False
     ([[''9400'', ''0600-1800'', ''1345'', ''D'', ''Deutsche Welle'', ''E'', [], []],
       [''9410'', ''0600-1800'', ''irr'', ''D'', ''Deutsche Welle'', ''E'', [], []]] ! 1 ! 2)
   \<and> out_record ''9410.0'' ''Deutsche Welle'' ''D.  Lang: E'' ''T3'' [] ''0600'' ''1800'' ! 9
       = []"
  using unrecognized_day_emits_empty [of dec_ops
      "[[''9400'', ''0600-1800'', ''1345'', ''D'', ''Deutsche Welle'', ''E'', [], []],
        [''9410'', ''0600-1800'', ''irr'', ''D'', ''Deutsche Welle'', ''E'', [], []]]"
      "[out_record ''9400.0'' ''Deutsche Welle'' ''D.  Lang: E'' ''T3''
            (py_quoted ''M_WTF__'') ''0600'' ''1800'',
          out_record ''9410.0'' ''Deutsche Welle'' ''D.  Lang: E'' ''T3''
            [] ''0600'' ''1800'']" "[]" 1]
    two_rows_run day_unrecognized_irr [of False]
  by simp

section \<open>Day letters and their integer\<close>

lemma day_letter_at:
  assumes "i < 7"
  shows "py_getitem day_letters (int i) = Inr (day_letters ! i)" and "day_letters ! i \<noteq> CHR ''_''"
  using lt7_cases [OF assms]
  by (elim disjE; simp add: py_getitem_def day_letters_def)+

lemma dowstring_from_bits:
  assumes "i + length bs \<le> 7"
  shows "\<exists>ls. dowstring_from i bs = Inr ls \<and> length ls = length bs \<and>
           map (\<lambda>c. if c \<noteq> CHR ''_'' then CHR ''1'' else CHR ''0'') ls =
           map (\<lambda>b. if b = CHR ''1'' then CHR ''1'' else CHR ''0'') bs"
  using assms
proof (induction bs arbitrary: i)
  case Nil
  then show ?case by simp
next
  case (Cons b bs)
  then have i: "i < 7" and rest: "Suc i + length bs \<le> 7" by simp_all
  from Cons.IH [OF rest] obtain ls where ls: "dowstring_from (Suc i) bs = Inr ls"
    "length ls = length bs"
    "map (\<lambda>c. if c \<noteq> CHR ''_'' then CHR ''1'' else CHR ''0'') ls =
     map (\<lambda>b. if b = CHR ''1'' then CHR ''1'' else CHR ''0'') bs"
    by blast
  show ?case
    using ls day_letter_at [OF i] by (cases "b = CHR ''1''") simp_all
qed

lemma mask_binstring_bits:
  "length (mask_binstring m) = 7"
  "map (\<lambda>b. if b = CHR ''1'' then CHR ''1'' else CHR ''0'') (mask_binstring m) = mask_binstring m"
  "list_all (\<lambda>c. c = CHR ''0'' \<or> c = CHR ''1'') (mask_binstring m)"
  by (simp_all add: mask_binstring_def)

lemma bin_digits_value:
  "foldl (\<lambda>a c. 2 * a + (if c = CHR ''1'' then 1 else 0)) 0 (bin_digits n m) = int (m mod 2 ^ n)"
proof (induction n arbitrary: m)
  case 0
  then show ?case by simp
next
  case (Suc n)
  have "m mod (2 * 2 ^ n) = 2 * (m div 2 mod 2 ^ n) + m mod 2"
    by (rule mod_mult2_eq)
  then show ?case
    using Suc [of "m div 2"]
    by (cases "odd m") (simp_all add: odd_iff_mod_2_eq_one even_iff_mod_2_eq_zero)
qed

lemma mask_binstring_bin_digits: "mask_binstring m = bin_digits 7 m"
proof -
  have d: "m div 2 div 2 = m div 4" "m div 4 div 2 = m div 8" "m div 8 div 2 = m div 16"
    "m div 16 div 2 = m div 32" "m div 32 div 2 = m div 64"
    by (simp_all add: div_mult2_eq [symmetric])
  have "bin_digits (Suc (Suc (Suc (Suc (Suc (Suc (Suc 0))))))) m = mask_binstring m"
    by (simp add: mask_binstring_def d)
  then show ?thesis by (simp add: eval_nat_numeral)
qed

lemma mask_value:
  assumes "m < 128"
  shows "py_int_base2 (mask_binstring m) = Inr (int m)"
proof -
  have "foldl (\<lambda>a c. 2 * a + (if c = CHR ''1'' then 1 else 0)) 0 (mask_binstring m) = int (m mod 2 ^ 7)"
    unfolding mask_binstring_bin_digits by (rule bin_digits_value)
  moreover have "m mod 2 ^ 7 = m" using assms by simp
  ultimately show ?thesis
    using mask_binstring_bits(1,3) [of m] by (auto simp: py_int_base2_def)
qed

text \<open>
  Claim C2. For each of the 128 masks \<open>m\<close>, written as its seven-character binary
  string with Monday's bit first (the string has the value \<open>m\<close> as a binary numeral),
  \<^verbatim>\<open>binstring_to_dowstring\<close> returns a day-letter string of seven characters, and
  \<^verbatim>\<open>day_schedule_to_int\<close> of the JSON script turns that string back into \<open>m\<close>.
\<close>

theorem dowstring_roundtrip:
  assumes "m < 128"
  shows "py_int_base2 (mask_binstring m) = Inr (int m)
       \<and> (\<exists>letters. binstring_to_dowstring (mask_binstring m) = Inr letters
             \<and> length letters = 7 \<and> day_schedule_to_int letters = Inr (int m))"
proof -
  from dowstring_from_bits [of 0 "mask_binstring m"] obtain ls where
    ls: "dowstring_from 0 (mask_binstring m) = Inr ls" "length ls = 7"
      "map (\<lambda>c. if c \<noteq> CHR ''_'' then CHR ''1'' else CHR ''0'') ls = mask_binstring m"
    by (auto simp: mask_binstring_bits)
  then have "day_schedule_to_int ls = Inr (int m)"
    by (simp add: day_schedule_to_int_def mask_value [OF assms])
  with ls show ?thesis
    by (simp add: binstring_to_dowstring_def mask_value [OF assms])
qed

theorem dowstring_roundtrip_witness:
  "mask_binstring 92 = ''1011100''
   \<and> binstring_to_dowstring ''1011100'' = Inr ''M_WTF__''
   \<and> day_schedule_to_int ''M_WTF__'' = Inr 92"
proof -
  have m: "mask_binstring 92 = ''1011100''"
    by (simp add: mask_binstring_def)
  have b: "binstring_to_dowstring ''1011100'' = Inr ''M_WTF__''"
    by (simp add: binstring_to_dowstring_def py_getitem_def day_letters_def)
  from dowstring_roundtrip [of 92] m b show ?thesis by simp
qed

section \<open>The relay field of the online script\<close>

lemma py_split_second:
  "py_getitem (py_split sep s) 1 =
     (if sep \<in> set s then Inr (takeWhile (\<lambda>c. c \<noteq> sep) (drop 1 (dropWhile (\<lambda>c. c \<noteq> sep) s)))
      else Inl IndexError)"
proof (cases "sep \<in> set s")
  case True
  define r where "r = py_split sep (tl (dropWhile (\<lambda>c. c \<noteq> sep) s))"
  have "r \<noteq> []" by (simp add: r_def)
  then obtain x xs where r: "r = x # xs" by (cases r) auto
  have "py_split sep s \<noteq> []" by simp
  then obtain y ys where p: "py_split sep s = y # ys" by (cases "py_split sep s") auto
  from tl_py_split [OF True] p r have ys: "ys = x # xs" by (simp add: r_def)
  have "x = hd r" using r by simp
  then have "x = takeWhile (\<lambda>c. c \<noteq> sep) (tl (dropWhile (\<lambda>c. c \<noteq> sep) s))"
    by (simp add: r_def hd_py_split)
  then show ?thesis using True p ys by (simp add: py_getitem_def drop_Suc)
next
  case False
  then show ?thesis by (simp add: py_split_no_sep py_getitem_def)
qed

lemma relay_site_hyphen:
  assumes "CHR ''/'' \<in> set r7"
  shows "relay_site itu r7 = hyphen_relay_site r7"
proof (cases "CHR ''-'' \<in> set r7")
  case True
  then show ?thesis
    using assms
    by (simp add: relay_site_def hyphen_relay_site_def Let_def hd_py_split py_split_second)
next
  case False
  then have dw: "dropWhile (\<lambda>c. c \<noteq> CHR ''-'') r7 = []"
    by auto
  show ?thesis
    using assms False
    by (simp add: relay_site_def hyphen_relay_site_def Let_def hd_py_split py_split_second dw)
qed

text \<open>
  Claim C7 says that, for a relay field with a slash, the country code is the part before
  the slash without its first character and the site is the part after the slash. The
  online script tests for a slash but splits at the hyphens: for \<^verbatim>\<open>/USA-gr\<close> it takes the
  country \<^verbatim>\<open>USA\<close> and the site \<^verbatim>\<open>gr\<close>, where the claim gives an empty country and the
  site \<^verbatim>\<open>USA-gr\<close>; for \<^verbatim>\<open>XUSA/gr\<close> it takes the country \<^verbatim>\<open>USA/gr\<close> and no site,
  where the claim gives \<^verbatim>\<open>USA\<close> and \<^verbatim>\<open>gr\<close>.
\<close>

theorem relay_site_counterexample:
  "relay_site ''D'' ''/USA-gr'' = (''USA'', ''gr'')
   \<and> spec_relay_site ''/USA-gr'' = ([], ''USA-gr'')
   \<and> relay_site ''D'' ''/USA-gr'' \<noteq> spec_relay_site ''/USA-gr''
   \<and> relay_site ''D'' ''XUSA/gr'' = (''USA/gr'', [])
   \<and> spec_relay_site ''XUSA/gr'' = (''USA'', ''gr'')"
  by (simp add: relay_site_def spec_relay_site_def py_getitem_def)

text \<open>
  Claim C7, amended. In the online script, for every row whose relay field contains a
  slash, the country code used in the notes and in the location lookup is the part of the
  relay field before its first hyphen without its first character, and the site code used
  in the lookup is the part between the first hyphen and the second (empty when the field
  has no hyphen).
\<close>

theorem relay_site_splits_at_hyphen:
  assumes "CHR ''/'' \<in> set r7"
  shows "relay_site itu r7 = hyphen_relay_site r7
       \<and> online_notes location_dict itu r7 target lang =
           (case hyphen_relay_site r7 of (code, site) \<Rightarrow>
              (case location_lookup location_dict code site of
                 Some long_name \<Rightarrow>
                   code @ '' '' @ py_strip long_name @ ''. '' @ target @ '' '' @ lang
               | None \<Rightarrow> code @ ''. '' @ target @ '' '' @ lang))"
  by (simp add: online_notes_def relay_site_hyphen [OF assms])

theorem relay_site_splits_at_hyphen_witness:
  "relay_site ''D'' ''/USA-gr'' = (''USA'', ''gr'')
   \<and> online_notes [''USA'' \<mapsto> [''gr'' \<mapsto> ''Greenville NC'']] ''D'' ''/USA-gr''
        ''Target: Eu.'' ''Lang: E'' = ''USA Greenville NC. Target: Eu. Lang: E''"
  using relay_site_splits_at_hyphen [of "''/USA-gr''" "''D''"
      "[''USA'' \<mapsto> [''gr'' \<mapsto> ''Greenville NC'']]" "''Target: Eu.''" "''Lang: E''"]
  by (simp add: hyphen_relay_site_def location_lookup_def py_strip_def is_space_def)

section \<open>The sort of the CSV stage\<close>

lemma sort_outrow_Inr:
  assumes "sort_outrow ops outrow = Inr out" and "\<forall>x \<in> set outrow. key_value ops x \<noteq> None"
  shows "out = sort_key (\<lambda>x. the (key_value ops x)) outrow"
  using assms by (simp add: sort_outrow_def list_all_iff split: option.splits)

lemma filter_key_value:
  assumes "\<forall>x \<in> set xs. key_value ops x \<noteq> None" and "set ys = set xs"
  shows "filter (\<lambda>x. key_value ops x = Some k) ys = filter (\<lambda>x. the (key_value ops x) = k) ys"
    and "filter (\<lambda>x. key_value ops x = None) ys = []"
  using assms by (auto intro!: filter_cong simp: filter_empty_conv)

lemma csv_stage_sorted:
  assumes "csv_stage ops (header # rows) = Inr out"
    and "row_loop (process_row ops) [] rows = Inr (outrow, D)"
    and "\<forall>x \<in> set outrow. key_value ops x \<noteq> None"
  shows "sorted (map (\<lambda>x. the (key_value ops x)) out) \<and> mset out = mset outrow
       \<and> (\<forall>k. filter (\<lambda>x. key_value ops x = k) out = filter (\<lambda>x. key_value ops x = k) outrow)"
proof -
  from assms(1,2) have "sort_outrow ops outrow = Inr out"
    by (simp add: csv_stage_def)
  from sort_outrow_Inr [OF this assms(3)]
  have out: "out = sort_key (\<lambda>x. the (key_value ops x)) outrow" .
  have st: "filter (\<lambda>x. key_value ops x = k) out = filter (\<lambda>x. key_value ops x = k) outrow" for k
  proof (cases k)
    case None
    then show ?thesis
      using filter_key_value(2) [OF assms(3), of out] filter_key_value(2) [OF assms(3), of outrow]
      by (simp add: out)
  next
    case (Some v)
    have "filter (\<lambda>x. the (key_value ops x) = v) out = filter (\<lambda>x. the (key_value ops x) = v) outrow"
      unfolding out by (rule sort_key_stable)
    then show ?thesis
      using filter_key_value(1) [OF assms(3), of out v] filter_key_value(1) [OF assms(3), of outrow v]
      by (simp add: out Some)
  qed
  show ?thesis
    using st by (simp add: out)
qed

lemma key_value_out_record:
  "key_value ops (out_record khz ident notes type DOW b e) =
     (case py_float ops khz of Inl err \<Rightarrow> None | Inr f \<Rightarrow> float_value ops f)"
  by (simp add: key_value_def sort_key_of_def out_record_def py_getitem_def)

lemma sort_key_of_out_record:
  "sort_key_of ops (out_record khz ident notes type DOW b e) = py_float ops khz"
  by (simp add: sort_key_of_def out_record_def py_getitem_def)

lemma dec_float_examples:
  "float_of_str dec_ops ''15070'' = Some (Number 15070)"
  "float_of_str dec_ops ''9400.5'' = Some (Number (18801 / 2))"
  "float_of_str dec_ops ''nan'' = Some NaN"
  "py_float dec_ops ''15070.0'' = Inr (Number 15070)"
  "py_float dec_ops ''9400.0'' = Inr (Number 9400)"
  "py_float dec_ops ''9400.5'' = Inr (Number (18801 / 2))"
  "py_float dec_ops ''nan'' = Inr NaN"
  by (simp_all add: py_float_def dec_ops_def dec_float_of_str_def is_digit_def digits_value_def
      digit_value_def)

lemma dec_str_examples:
  "str_of_float dec_ops (Number 15070) = ''15070.0''"
  "str_of_float dec_ops (Number (18801 / 2)) = ''9400.5''"
  "str_of_float dec_ops NaN = ''nan''"
  by (simp_all add: dec_ops_def show_nat.simps frac_digits.simps digit_char_def)

lemma dec_value_simps:
  "float_value dec_ops (Number q) = Some q" "float_value dec_ops NaN = None"
  by (simp_all add: dec_ops_def)

lemma example_row_eval:
  assumes "float_of_str dec_ops f = Some k"
  shows "process_row dec_ops [] [f, ''0600-1800'', ''1345'', ''D'', ident, ''E'', [], []] =
           Inr (out_record (str_of_float dec_ops k) ident ''D.  Lang: E'' ''T3''
                  (py_quoted ''M_WTF__'') ''0600'' ''1800'', [])"
  by (simp add: process_row_eval [OF assms split_times_0600_1800 day_branch_1345]
      strip_E target_text_def lang_text_def type_of_lang_def py_startswith_def quote_dow_def)

lemma dec_key_values:
  "key_value dec_ops (out_record ''15070.0'' ident notes type DOW b e) = Some 15070"
  "key_value dec_ops (out_record ''9400.0'' ident notes type DOW b e) = Some 9400"
  "key_value dec_ops (out_record ''9400.5'' ident notes type DOW b e) = Some (18801 / 2)"
  "key_value dec_ops (out_record ''nan'' ident notes type DOW b e) = None"
  by (simp_all add: key_value_out_record dec_float_examples dec_value_simps)

lemmas example_rows =
  example_row_eval [OF dec_float_examples(1)] example_row_eval [OF dec_float_examples(2)]
  example_row_eval [OF dec_float_examples(3)] example_row_eval [OF dec_float_9400]

lemma example_sort:
  "csv_stage dec_ops
     [[''kHz'', ''Time(UTC)'', ''Days'', ''ITU'', ''Station'', ''Lng'', ''Target'', ''Remarks''],
      [''15070'', ''0600-1800'', ''1345'', ''D'', ''A'', ''E'', [], []],
      [''9400'', ''0600-1800'', ''1345'', ''D'', ''B'', ''E'', [], []],
      [''9400.5'', ''0600-1800'', ''1345'', ''D'', ''C'', ''E'', [], []]] =
   Inr [out_record ''9400.0'' ''B'' ''D.  Lang: E'' ''T3'' (py_quoted ''M_WTF__'') ''0600'' ''1800'',
        out_record ''9400.5'' ''C'' ''D.  Lang: E'' ''T3'' (py_quoted ''M_WTF__'') ''0600'' ''1800'',
        out_record ''15070.0'' ''A'' ''D.  Lang: E'' ''T3'' (py_quoted ''M_WTF__'') ''0600'' ''1800'']"
  by (simp add: csv_stage_def example_rows dec_str_examples dec_str_9400 sort_outrow_def
      sort_key_of_out_record dec_key_values dec_float_examples del: not_None_eq)

lemma example_loop_stable:
  "row_loop (process_row dec_ops) []
     [[''15070'', ''0600-1800'', ''1345'', ''D'', ''A'', ''E'', [], []],
      [''9400'', ''0600-1800'', ''1345'', ''D'', ''B'', ''E'', [], []],
      [''9400.5'', ''0600-1800'', ''1345'', ''D'', ''C'', ''E'', [], []],
      [''9400'', ''0600-1800'', ''1345'', ''D'', ''A'', ''E'', [], []]] =
   Inr ([out_record ''15070.0'' ''A'' ''D.  Lang: E'' ''T3'' (py_quoted ''M_WTF__'') ''0600'' ''1800'',
         out_record ''9400.0'' ''B'' ''D.  Lang: E'' ''T3'' (py_quoted ''M_WTF__'') ''0600'' ''1800'',
         out_record ''9400.5'' ''C'' ''D.  Lang: E'' ''T3'' (py_quoted ''M_WTF__'') ''0600'' ''1800'',
         out_record ''9400.0'' ''A'' ''D.  Lang: E'' ''T3'' (py_quoted ''M_WTF__'') ''0600'' ''1800''], [])"
  by (simp add: example_rows dec_str_examples dec_str_9400)

lemma example_sort_stable:
  "csv_stage dec_ops
     [[''kHz'', ''Time(UTC)'', ''Days'', ''ITU'', ''Station'', ''Lng'', ''Target'', ''Remarks''],
      [''15070'', ''0600-1800'', ''1345'', ''D'', ''A'', ''E'', [], []],
      [''9400'', ''0600-1800'', ''1345'', ''D'', ''B'', ''E'', [], []],
      [''9400.5'', ''0600-1800'', ''1345'', ''D'', ''C'', ''E'', [], []],
      [''9400'', ''0600-1800'', ''1345'', ''D'', ''A'', ''E'', [], []]] =
   Inr [out_record ''9400.0'' ''B'' ''D.  Lang: E'' ''T3'' (py_quoted ''M_WTF__'') ''0600'' ''1800'',
        out_record ''9400.0'' ''A'' ''D.  Lang: E'' ''T3'' (py_quoted ''M_WTF__'') ''0600'' ''1800'',
        out_record ''9400.5'' ''C'' ''D.  Lang: E'' ''T3'' (py_quoted ''M_WTF__'') ''0600'' ''1800'',
        out_record ''15070.0'' ''A'' ''D.  Lang: E'' ''T3'' (py_quoted ''M_WTF__'') ''0600'' ''1800'']"
  by (simp add: csv_stage_def example_rows dec_str_examples dec_str_9400 sort_outrow_def
      sort_key_of_out_record dec_key_values dec_float_examples del: not_None_eq)

lemma example_sort_nan:
  "csv_stage dec_ops
     [[''kHz'', ''Time(UTC)'', ''Days'', ''ITU'', ''Station'', ''Lng'', ''Target'', ''Remarks''],
      [''15070'', ''0600-1800'', ''1345'', ''D'', ''A'', ''E'', [], []],
      [''nan'', ''0600-1800'', ''1345'', ''D'', ''B'', ''E'', [], []],
      [''9400'', ''0600-1800'', ''1345'', ''D'', ''C'', ''E'', [], []],
      [''9400.5'', ''0600-1800'', ''1345'', ''D'', ''E'', ''E'', [], []]] =
   Inr [out_record ''15070.0'' ''A'' ''D.  Lang: E'' ''T3'' (py_quoted ''M_WTF__'') ''0600'' ''1800'',
        out_record ''nan'' ''B'' ''D.  Lang: E'' ''T3'' (py_quoted ''M_WTF__'') ''0600'' ''1800'',
        out_record ''9400.0'' ''C'' ''D.  Lang: E'' ''T3'' (py_quoted ''M_WTF__'') ''0600'' ''1800'',
        out_record ''9400.5'' ''E'' ''D.  Lang: E'' ''T3'' (py_quoted ''M_WTF__'') ''0600'' ''1800'']"
  by (simp add: csv_stage_def example_rows dec_str_examples dec_str_9400 sort_outrow_def
      sort_key_of_out_record dec_key_values dec_float_examples float_lt_def del: not_None_eq)

text \<open>
  Claim C9 says that the output of the CSV stage is sorted by the number of the frequency
  field. \<^verbatim>\<open>float\<close> reads the field \<^verbatim>\<open>nan\<close> as a NaN, which is less than nothing and
  greater than nothing: for the frequencies 15070, nan, 9400 and 9400.5 no key is less
  than the key before it, the sort leaves the list as it is, and the record of 15070 is
  written before the record of 9400.
\<close>

theorem nan_frequency_counterexample:
  "csv_stage dec_ops
     [[''kHz'', ''Time(UTC)'', ''Days'', ''ITU'', ''Station'', ''Lng'', ''Target'', ''Remarks''],
      [''15070'', ''0600-1800'', ''1345'', ''D'', ''A'', ''E'', [], []],
      [''nan'', ''0600-1800'', ''1345'', ''D'', ''B'', ''E'', [], []],
      [''9400'', ''0600-1800'', ''1345'', ''D'', ''C'', ''E'', [], []],
      [''9400.5'', ''0600-1800'', ''1345'', ''D'', ''E'', ''E'', [], []]] =
   Inr [out_record ''15070.0'' ''A'' ''D.  Lang: E'' ''T3'' (py_quoted ''M_WTF__'') ''0600'' ''1800'',
        out_record ''nan'' ''B'' ''D.  Lang: E'' ''T3'' (py_quoted ''M_WTF__'') ''0600'' ''1800'',
        out_record ''9400.0'' ''C'' ''D.  Lang: E'' ''T3'' (py_quoted ''M_WTF__'') ''0600'' ''1800'',
        out_record ''9400.5'' ''E'' ''D.  Lang: E'' ''T3'' (py_quoted ''M_WTF__'') ''0600'' ''1800'']
   \<and> map (key_value dec_ops)
       [out_record ''15070.0'' ''A'' ''D.  Lang: E'' ''T3'' (py_quoted ''M_WTF__'') ''0600'' ''1800'',
        out_record ''nan'' ''B'' ''D.  Lang: E'' ''T3'' (py_quoted ''M_WTF__'') ''0600'' ''1800'',
        out_record ''9400.0'' ''C'' ''D.  Lang: E'' ''T3'' (py_quoted ''M_WTF__'') ''0600'' ''1800'',
        out_record ''9400.5'' ''E'' ''D.  Lang: E'' ''T3'' (py_quoted ''M_WTF__'') ''0600'' ''1800'']
     = [Some 15070, None, Some 9400, Some (18801 / 2)]
   \<and> float_lt (Some (9400 :: real)) (Some 15070)"
  using example_sort_nan by (simp add: dec_key_values float_lt_def)

text \<open>
  Claim C9, amended. When the CSV stage succeeds and no record of the row loop has a NaN
  for the number of its frequency field, the records written are in ascending order of
  that number \<^verbatim>\<open>float(x[0])\<close>, they are the records of the row loop rearranged, and the
  records of equal frequency keep the order the loop gave them. The order is that of the
  numbers, not of the strings: the rows with the frequencies 15070, 9400 and 9400.5 are
  written in the order 9400.0, 9400.5, 15070.0.
\<close>

theorem csv_stage_sorted_stable:
  assumes "csv_stage ops (header # rows) = Inr out"
    and "row_loop (process_row ops) [] rows = Inr (outrow, D)"
    and "\<forall>x \<in> set outrow. key_value ops x \<noteq> None"
  shows "sorted (map (\<lambda>x. the (key_value ops x)) out) \<and> mset out = mset outrow
       \<and> (\<forall>k. filter (\<lambda>x. key_value ops x = k) out = filter (\<lambda>x. key_value ops x = k) outrow)
       \<and> csv_stage dec_ops
            [[''kHz'', ''Time(UTC)'', ''Days'', ''ITU'', ''Station'', ''Lng'', ''Target'', ''Remarks''],
             [''15070'', ''0600-1800'', ''1345'', ''D'', ''A'', ''E'', [], []],
             [''9400'', ''0600-1800'', ''1345'', ''D'', ''B'', ''E'', [], []],
             [''9400.5'', ''0600-1800'', ''1345'', ''D'', ''C'', ''E'', [], []]] =
           Inr [out_record ''9400.0'' ''B'' ''D.  Lang: E'' ''T3'' (py_quoted ''M_WTF__'')
                  ''0600'' ''1800'',
                out_record ''9400.5'' ''C'' ''D.  Lang: E'' ''T3'' (py_quoted ''M_WTF__'')
                  ''0600'' ''1800'',
                out_record ''15070.0'' ''A'' ''D.  Lang: E'' ''T3'' (py_quoted ''M_WTF__'')
                  ''0600'' ''1800'']"
  using csv_stage_sorted [OF assms] example_sort by blast

theorem csv_stage_sorted_stable_witness:
  "csv_stage dec_ops
     [[''kHz'', ''Time(UTC)'', ''Days'', ''ITU'', ''Station'', ''Lng'', ''Target'', ''Remarks''],
      [''15070'', ''0600-1800'', ''1345'', ''D'', ''A'', ''E'', [], []],
      [''9400'', ''0600-1800'', ''1345'', ''D'', ''B'', ''E'', [], []],
      [''9400.5'', ''0600-1800'', ''1345'', ''D'', ''C'', ''E'', [], []],
      [''9400'', ''0600-1800'', ''1345'', ''D'', ''A'', ''E'', [], []]] =
   Inr [out_record ''9400.0'' ''B'' ''D.  Lang: E'' ''T3'' (py_quoted ''M_WTF__'') ''0600'' ''1800'',
        out_record ''9400.0'' ''A'' ''D.  Lang: E'' ''T3'' (py_quoted ''M_WTF__'') ''0600'' ''1800'',
        out_record ''9400.5'' ''C'' ''D.  Lang: E'' ''T3'' (py_quoted ''M_WTF__'') ''0600'' ''1800'',
        out_record ''15070.0'' ''A'' ''D.  Lang: E'' ''T3'' (py_quoted ''M_WTF__'') ''0600'' ''1800'']
   \<and> sorted (map (\<lambda>x. the (key_value dec_ops x))
        [out_record ''9400.0'' ''B'' ''D.  Lang: E'' ''T3'' (py_quoted ''M_WTF__'') ''0600'' ''1800'',
         out_record ''9400.0'' ''A'' ''D.  Lang: E'' ''T3'' (py_quoted ''M_WTF__'') ''0600'' ''1800'',
         out_record ''9400.5'' ''C'' ''D.  Lang: E'' ''T3'' (py_quoted ''M_WTF__'') ''0600'' ''1800'',
         out_record ''15070.0'' ''A'' ''D.  Lang: E'' ''T3'' (py_quoted ''M_WTF__'') ''0600'' ''1800''])"
proof -
  have no_nan: "\<forall>x \<in> set
      [out_record ''15070.0'' ''A'' ''D.  Lang: E'' ''T3'' (py_quoted ''M_WTF__'') ''0600'' ''1800'',
       out_record ''9400.0'' ''B'' ''D.  Lang: E'' ''T3'' (py_quoted ''M_WTF__'') ''0600'' ''1800'',
       out_record ''9400.5'' ''C'' ''D.  Lang: E'' ''T3'' (py_quoted ''M_WTF__'') ''0600'' ''1800'',
       out_record ''9400.0'' ''A'' ''D.  Lang: E'' ''T3'' (py_quoted ''M_WTF__'') ''0600'' ''1800''].
      key_value dec_ops x \<noteq> None"
    by (simp add: dec_key_values del: not_None_eq)
  from csv_stage_sorted_stable [OF example_sort_stable example_loop_stable no_nan]
    example_sort_stable
  show ?thesis by blast
qed

end
